theory Spec2Isabelle
  imports Complex_Main "HOL-Library.Sublist"
begin

section \<open>Data model\<close>

text \<open>
  The feature pipeline of \<^verbatim>\<open>src/procs/Procs.py\<close> works on pandas data frames and on two
  Python lists of column names. A data frame is modelled column-wise, as the ordered list
  of its named columns; a column is the list of its cells, top row first. A cell is a
  number or the missing value (pandas' NaN, \<open>None\<close> here). Dates are cells as well: a
  date is taken as already converted to a comparable number, and a missing date is
  \<open>None\<close>.

  Floating-point numbers are idealised as real numbers. Rounding, overflow and the IEEE
  infinities are outside the model. The one place where this shows is a quotient with
  divisor zero: the code gives NaN for \<open>0 / 0\<close> and an infinity for any other \<open>x / 0\<close>,
  the model gives the missing value for both (see \<open>cell_div\<close>). The statements below
  that give the value of a quotient are stated for a divisor other than zero.

  Column names are looked up first-match, and the model never relies on a frame holding
  the same name twice.
\<close>

type_synonym cell = "real option"
type_synonym series = "cell list"
type_synonym table = "(string \<times> series) list"

text \<open>The exceptions a call can end with.\<close>

datatype error = KeyError string | ValueError | FetchError string

text \<open>
  The transforms mutate their arguments: the frame \<open>df\<close> (some of them), and the lists
  \<open>cont_vars\<close> and \<open>cat_vars\<close>. A \<open>world\<close> is the state of these three caller-owned
  objects; a transform takes the world before the call and returns what the call returns
  (a frame, or the exception it raises) together with the world after the call.
\<close>

record world =
  df :: table
  cont_vars :: "string list"
  cat_vars :: "string list"

type_synonym outcome = "(error + table) \<times> world"

section \<open>The pandas operations the transforms use\<close>

definition columns :: "table \<Rightarrow> string list" where
  "columns t = map fst t"

definition nrows :: "table \<Rightarrow> nat" where
  "nrows t = (case t of [] \<Rightarrow> 0 | (n, c) # _ \<Rightarrow> length c)"

text \<open>\<^verbatim>\<open>df[name]\<close>: the column, or KeyError.\<close>

definition get_col :: "table \<Rightarrow> string \<Rightarrow> error + series" where
  "get_col t n = (case map_of t n of None \<Rightarrow> Inl (KeyError n) | Some c \<Rightarrow> Inr c)"

text \<open>\<^verbatim>\<open>df[name] = s\<close>: replaces the column in place, or appends a new last column.\<close>

definition set_col :: "table \<Rightarrow> string \<Rightarrow> series \<Rightarrow> table" where
  "set_col t n s =
     (if n \<in> set (columns t) then map (\<lambda>(m, c). if m = n then (m, s) else (m, c)) t
      else t @ [(n, s)])"

text \<open>A frame is well formed when its column names are distinct and its columns have
  one length.\<close>

definition wf_table :: "table \<Rightarrow> bool" where
  "wf_table t = (distinct (columns t) \<and> list_all (\<lambda>(n, c). length c = nrows t) t)"

text \<open>Arithmetic and comparison on cells: NaN propagates, and every comparison with NaN
  is false.\<close>

definition cell_lift2 :: "(real \<Rightarrow> real \<Rightarrow> real) \<Rightarrow> cell \<Rightarrow> cell \<Rightarrow> cell" where
  "cell_lift2 f a b = (case (a, b) of (Some x, Some y) \<Rightarrow> Some (f x y) | _ \<Rightarrow> None)"

definition cell_add :: "cell \<Rightarrow> cell \<Rightarrow> cell" where
  "cell_add = cell_lift2 (+)"

definition cell_sub :: "cell \<Rightarrow> cell \<Rightarrow> cell" where
  "cell_sub = cell_lift2 (-)"

definition cell_mul :: "cell \<Rightarrow> cell \<Rightarrow> cell" where
  "cell_mul = cell_lift2 (*)"

definition cell_div :: "cell \<Rightarrow> cell \<Rightarrow> cell" where
  "cell_div a b =
     (case (a, b) of (Some x, Some y) \<Rightarrow> if y = 0 then None else Some (x / y) | _ \<Rightarrow> None)"

definition cell_abs :: "cell \<Rightarrow> cell" where
  "cell_abs a = map_option abs a"

definition cell_lt :: "cell \<Rightarrow> cell \<Rightarrow> bool" where
  "cell_lt a b = (case (a, b) of (Some x, Some y) \<Rightarrow> x < y | _ \<Rightarrow> False)"

definition cell_gt :: "cell \<Rightarrow> cell \<Rightarrow> bool" where
  "cell_gt a b = cell_lt b a"

text \<open>\<^verbatim>\<open>fillna(0)\<close> on a column and on a frame; both return a new object.\<close>

definition fillna0 :: "series \<Rightarrow> series" where
  "fillna0 s = map (\<lambda>x. case x of None \<Rightarrow> Some 0 | Some v \<Rightarrow> Some v) s"

definition fillna :: "table \<Rightarrow> table" where
  "fillna t = map (\<lambda>(n, c). (n, fillna0 c)) t"

text \<open>\<^verbatim>\<open>s.shift(k)\<close>: rows move down by \<open>k\<close> (up for negative \<open>k\<close>), the freed rows are NaN.\<close>

definition shift :: "int \<Rightarrow> series \<Rightarrow> series" where
  "shift k s =
     (if 0 \<le> k then take (length s) (replicate (nat k) None @ s)
      else drop (nat (- k)) s @ replicate (min (nat (- k)) (length s)) None)"

text \<open>
  \<^verbatim>\<open>s.pct_change()\<close> with pandas' defaults of the time: missing values are first
  filled forward (\<open>fill_method = 'pad'\<close>), then each row is divided by the row before it
  and 1 is subtracted.
\<close>

fun ffill_from :: "cell \<Rightarrow> series \<Rightarrow> series" where
  "ffill_from prev [] = []"
| "ffill_from prev (None # xs) = prev # ffill_from prev xs"
| "ffill_from prev (Some v # xs) = Some v # ffill_from (Some v) xs"

definition ffill :: "series \<Rightarrow> series" where
  "ffill s = ffill_from None s"

definition pct_change :: "series \<Rightarrow> series" where
  "pct_change s =
     (let d = ffill s
      in map (\<lambda>(a, b). cell_sub (cell_div a b) (Some 1)) (zip d (shift 1 d)))"

text \<open>
  \<^verbatim>\<open>s.quantile(q)\<close> with linear interpolation: NaN cells are skipped, the rest sorted;
  the result lies at position \<open>q * (n - 1)\<close> of the sorted values, interpolated between
  its two neighbours. An empty column gives NaN; \<open>q\<close> outside \<open>[0, 1]\<close> raises ValueError.
\<close>

definition dropna :: "series \<Rightarrow> real list" where
  "dropna s = List.map_filter id s"

definition interpolate :: "real \<Rightarrow> real list \<Rightarrow> real" where
  "interpolate q vs =
     (let n = length vs;
          pos = q * real (n - 1);
          lo = nat \<lfloor>pos\<rfloor>;
          hi = min (lo + 1) (n - 1)
      in vs ! lo + (vs ! hi - vs ! lo) * (pos - real lo))"

definition quantile_value :: "real \<Rightarrow> series \<Rightarrow> cell" where
  "quantile_value q s =
     (let vs = sort (dropna s) in if vs = [] then None else Some (interpolate q vs))"

definition quantile :: "real \<Rightarrow> series \<Rightarrow> error + cell" where
  "quantile q s = (if q < 0 \<or> 1 < q then Inl ValueError else Inr (quantile_value q s))"

text \<open>\<^verbatim>\<open>df.rename(columns={old: new})\<close>: a new frame with the column renamed.\<close>

definition rename_column :: "table \<Rightarrow> string \<Rightarrow> string \<Rightarrow> table" where
  "rename_column t old_name new_name =
     map (\<lambda>(n, c). (if n = old_name then new_name else n, c)) t"

text \<open>Element-wise arithmetic of two columns of one frame.\<close>

definition series_op :: "(cell \<Rightarrow> cell \<Rightarrow> cell) \<Rightarrow> series \<Rightarrow> series \<Rightarrow> series" where
  "series_op f a b = map (\<lambda>(x, y). f x y) (zip a b)"

text \<open>\<^verbatim>\<open>df[names]\<close> and \<^verbatim>\<open>df.drop(columns=names)\<close>: KeyError for a name that is no column.\<close>

fun select_cols :: "table \<Rightarrow> string list \<Rightarrow> error + table" where
  "select_cols t [] = Inr []"
| "select_cols t (n # ns) =
     (case get_col t n of
        Inl e \<Rightarrow> Inl e
      | Inr c \<Rightarrow> (case select_cols t ns of Inl e \<Rightarrow> Inl e | Inr r \<Rightarrow> Inr ((n, c) # r)))"

definition drop_cols :: "table \<Rightarrow> string list \<Rightarrow> error + table" where
  "drop_cols t names =
     (case filter (\<lambda>n. n \<notin> set (columns t)) names of
        [] \<Rightarrow> Inr (filter (\<lambda>(n, c). n \<notin> set names) t)
      | n # _ \<Rightarrow> Inl (KeyError n))"

text \<open>\<^verbatim>\<open>s.min()\<close> and \<^verbatim>\<open>s.max()\<close>: NaN cells are skipped; NaN when nothing is left.\<close>

definition col_min :: "series \<Rightarrow> cell" where
  "col_min s = (case dropna s of [] \<Rightarrow> None | v # vs \<Rightarrow> Some (fold min vs v))"

definition col_max :: "series \<Rightarrow> cell" where
  "col_max s = (case dropna s of [] \<Rightarrow> None | v # vs \<Rightarrow> Some (fold max vs v))"

text \<open>
  \<^verbatim>\<open>pd.merge(l, r, on=key)\<close>, an inner join: one result row for every pair of a left
  row and a right row with equal keys. The join of the pandas versions the pipeline was
  written for groups the result by key: the keys are numbered in the order of their first
  occurrence on the left, and the rows come group by group, inside a group in the order
  of the left rows and, for one left row, of the right rows. When no key occurs twice on
  the left this is the order of the left rows. The keys of the pipeline are dates, and a
  missing date is a key like any other. The key column is kept once; any other name the
  two frames share gets the suffixes \<open>_x\<close> and \<open>_y\<close>.
\<close>

definition first_seen :: "'a list \<Rightarrow> 'a list" where
  "first_seen xs = rev (remdups (rev xs))"

definition merge_pairs :: "series \<Rightarrow> series \<Rightarrow> (nat \<times> nat) list" where
  "merge_pairs kl kr =
     concat (map (\<lambda>k. concat (map (\<lambda>i. map (\<lambda>j. (i, j))
                                              (filter (\<lambda>j. kr ! j = k) [0..<length kr]))
                                  (filter (\<lambda>i. kl ! i = k) [0..<length kl])))
                 (first_seen kl))"

definition pd_merge :: "table \<Rightarrow> table \<Rightarrow> string \<Rightarrow> error + table" where
  "pd_merge l r key =
     (case get_col l key of
        Inl e \<Rightarrow> Inl e
      | Inr kl \<Rightarrow>
          (case get_col r key of
             Inl e \<Rightarrow> Inl e
           | Inr kr \<Rightarrow>
               let ps = merge_pairs kl kr;
                   lcols = map (\<lambda>(n, c). (if n \<noteq> key \<and> n \<in> set (columns r) then n @ ''_x'' else n,
                                          map (\<lambda>(i, j). c ! i) ps)) l;
                   rcols = map (\<lambda>(n, c). (if n \<in> set (columns l) then n @ ''_y'' else n,
                                          map (\<lambda>(i, j). c ! j) ps))
                               (filter (\<lambda>(n, c). n \<noteq> key) r)
               in Inr (lcols @ rcols)))"

text \<open>
  \<^verbatim>\<open>df.loc[mask, name] = v\<close> with a number \<open>v\<close>. When the frame has no column of that
  name, the column is first created, all NaN; pandas refuses this on a frame without
  rows (ValueError, \<^verbatim>\<open>cannot set a frame with no defined index and a scalar\<close>) and leaves
  the frame as it was. Then the rows the mask selects are set to \<open>v\<close>, the others keep
  their value (\<open>loc_set\<close>).
\<close>

definition col_or_nan :: "table \<Rightarrow> string \<Rightarrow> series" where
  "col_or_nan t name =
     (case map_of t name of None \<Rightarrow> replicate (nrows t) None | Some c \<Rightarrow> c)"

definition loc_set :: "table \<Rightarrow> bool list \<Rightarrow> string \<Rightarrow> real \<Rightarrow> table" where
  "loc_set t sel name v =
     set_col t name (map (\<lambda>(m, x). if m then Some v else x) (zip sel (col_or_nan t name)))"

definition loc_assign :: "table \<Rightarrow> bool list \<Rightarrow> string \<Rightarrow> real \<Rightarrow> error + table" where
  "loc_assign t sel name v =
     (if name \<notin> set (columns t) \<and> nrows t = 0 then Inl ValueError
      else Inr (loc_set t sel name v))"

text \<open>
  \<^verbatim>\<open>pd.to_datetime\<close> and \<^verbatim>\<open>convert_date(df, name)\<close>. Dates are already comparable numbers
  in the model, so the conversion leaves the values as they are; what remains is the
  KeyError for a missing column.
\<close>

definition to_datetime :: "series \<Rightarrow> series" where
  "to_datetime s = s"

definition convert_date :: "table \<Rightarrow> string \<Rightarrow> error + table" where
  "convert_date t date_col_name =
     (case get_col t date_col_name of
        Inl e \<Rightarrow> Inl e
      | Inr c \<Rightarrow> Inr (set_col t date_col_name (to_datetime c)))"

text \<open>Python's \<^verbatim>\<open>str\<close> of an integer and \<^verbatim>\<open>upper\<close> of an ASCII string.\<close>

fun str_nat :: "nat \<Rightarrow> string" where
  "str_nat n =
     (if n < 10 then [char_of (48 + n)] else str_nat (n div 10) @ [char_of (48 + n mod 10)])"

declare str_nat.simps [simp del]

definition str_int :: "int \<Rightarrow> string" where
  "str_int i = (if i < 0 then ''-'' @ str_nat (nat (- i)) else str_nat (nat i))"

definition upper_char :: "char \<Rightarrow> char" where
  "upper_char c =
     (let k = of_char c :: nat in if 97 \<le> k \<and> k \<le> 122 then char_of (k - 32) else c)"

definition upper :: "string \<Rightarrow> string" where
  "upper s = map upper_char s"

section \<open>Feature metadata\<close>

text \<open>
  \<^verbatim>\<open>__update_meta_data(var, column_names)\<close>. Both arguments are lists the function
  may mutate, so the model returns both: the list \<open>var\<close> (which is also the Python return
  value) and \<open>column_names\<close>. When \<^verbatim>\<open>"Date"\<close> is among the names its first occurrence
  is removed from \<open>column_names\<close> and nothing else happens; the loop that appends is the
  \<^verbatim>\<open>else\<close> branch.
\<close>

definition update_meta_data :: "string list \<Rightarrow> string list \<Rightarrow> string list \<times> string list" where
  "update_meta_data var column_names =
     (if ''Date'' \<in> set column_names then (var, remove1 ''Date'' column_names)
      else (var @ column_names, column_names))"

section \<open>Normalisation\<close>

definition proc_fill_nan :: "table \<Rightarrow> table" where
  "proc_fill_nan d = fillna d"

text \<open>\<^verbatim>\<open>((df - df.min()) / (df.max() - df.min())) * max_scale\<close>, column by column.\<close>

definition min_max_scale :: "table \<Rightarrow> int \<Rightarrow> table" where
  "min_max_scale t max_scale =
     map (\<lambda>(n, c).
            (n, map (\<lambda>x. cell_mul (cell_div (cell_sub x (col_min c))
                                              (cell_sub (col_max c) (col_min c)))
                                    (Some (of_int max_scale))) c)) t"

text \<open>\<^verbatim>\<open>proc_min_max_normalize\<close>; \<^verbatim>\<open>pd.concat([excluded, tmp], axis=1)\<close> of two frames
  cut from one frame puts the columns of the first before those of the second.\<close>

definition proc_min_max_normalize ::
  "table \<Rightarrow> int \<Rightarrow> bool \<Rightarrow> string list \<Rightarrow> error + table" where
  "proc_min_max_normalize d max_scale all_col exclude_col =
     (let d1 = proc_fill_nan d
      in if all_col then Inr (min_max_scale d1 max_scale)
         else (case select_cols d1 exclude_col of
                 Inl e \<Rightarrow> Inl e
               | Inr excluded \<Rightarrow>
                   (case drop_cols d1 exclude_col of
                      Inl e \<Rightarrow> Inl e
                    | Inr tmp \<Rightarrow>
                        let tmp' = min_max_scale tmp max_scale;
                            dataNorm = excluded @ tmp'
                        in Inr dataNorm)))"

section \<open>Transforms on the frame alone\<close>

text \<open>\<^verbatim>\<open>proc_close_only\<close>: the name is appended before the columns are dropped; the
  result is a new frame.\<close>

definition proc_close_only :: "world \<Rightarrow> outcome" where
  "proc_close_only w =
     (let features = [''Open'', ''High'', ''Low'', ''Volume''];
          w1 = w\<lparr>cont_vars := cont_vars w @ [''Close'']\<rparr>
      in (drop_cols (df w1) features, w1))"

text \<open>\<^verbatim>\<open>proc_add_datepart\<close> returns nothing; \<^verbatim>\<open>list.index\<close> raises ValueError for a
  name that is not in the list.\<close>

fun index_of :: "string list \<Rightarrow> string \<Rightarrow> nat option" where
  "index_of [] x = None"
| "index_of (y # ys) x = (if y = x then Some 0 else map_option Suc (index_of ys x))"

definition proc_add_datepart :: "world \<Rightarrow> string \<Rightarrow> (error + unit) \<times> world" where
  "proc_add_datepart w date_col_name =
     (let w1 = w\<lparr>cont_vars := cont_vars w @ [''Elapsed'']\<rparr>;
          column_names = columns (df w1)
      in case index_of column_names ''Year'' of
           None \<Rightarrow> (Inl ValueError, w1)
         | Some start \<Rightarrow>
             (case index_of column_names ''Is_year_end'' of
                None \<Rightarrow> (Inl ValueError, w1)
              | Some end' \<Rightarrow>
                  (Inr (), w1\<lparr>cat_vars := cat_vars w1 @ map (\<lambda>i. column_names ! i) [start..<end']\<rparr>)))"

definition proc_add_next_y :: "world \<Rightarrow> string \<Rightarrow> int \<Rightarrow> outcome" where
  "proc_add_next_y w y_column number =
     (let c_name = ''y''
      in case get_col (df w) y_column of
           Inl e \<Rightarrow> (Inl e, w)
         | Inr c \<Rightarrow>
             let d = set_col (df w) c_name (shift (- number) c)
             in (Inr d, w\<lparr>df := d, cont_vars := cont_vars w @ [c_name]\<rparr>))"

text \<open>\<^verbatim>\<open>proc_add_previous_values\<close>: the loop over \<^verbatim>\<open>range(1, number + 1)\<close>.\<close>

fun previous_values_loop :: "string \<Rightarrow> int list \<Rightarrow> world \<Rightarrow> outcome" where
  "previous_values_loop column_name [] w = (Inr (df w), w)"
| "previous_values_loop column_name (n # ns) w =
     (case get_col (df w) column_name of
        Inl e \<Rightarrow> (Inl e, w)
      | Inr c \<Rightarrow>
          previous_values_loop column_name ns
            (w\<lparr>df := set_col (df w) (column_name @ ''-'' @ str_int n) (shift n c),
               cont_vars := cont_vars w @ [column_name @ ''-'' @ str_int n]\<rparr>))"

definition proc_add_previous_values :: "world \<Rightarrow> string \<Rightarrow> int \<Rightarrow> outcome" where
  "proc_add_previous_values w column_name number =
     previous_values_loop column_name [1..number] w"

definition proc_add_percent_change :: "world \<Rightarrow> string \<Rightarrow> outcome" where
  "proc_add_percent_change w column_name =
     (let name = ''-pct''
      in case get_col (df w) column_name of
           Inl e \<Rightarrow> (Inl e, w)
         | Inr c \<Rightarrow>
             let d = set_col (df w) (column_name @ name) (pct_change c)
             in (Inr d, w\<lparr>df := d, cont_vars := cont_vars w @ [column_name @ name]\<rparr>))"

definition proc_add_abs_percent_change :: "world \<Rightarrow> string \<Rightarrow> outcome" where
  "proc_add_abs_percent_change w column_name =
     (let name = ''-abs-pct''
      in case get_col (df w) column_name of
           Inl e \<Rightarrow> (Inl e, w)
         | Inr c \<Rightarrow>
             let s = map (\<lambda>x. cell_mul (cell_abs (cell_sub x (Some 1))) (Some 100))
                         (series_op cell_div c (shift 1 c));
                 d = set_col (df w) (column_name @ name) s
             in (Inr d, w\<lparr>df := d, cont_vars := cont_vars w @ [column_name @ name]\<rparr>))"

section \<open>The direction classifier\<close>

text \<open>
  \<^verbatim>\<open>proc_add_direction\<close>. When the percentage-change column is missing,
  \<^verbatim>\<open>proc_add_percent_change\<close> adds it to the caller's frame. Five quantiles of the
  column and the two noise thresholds follow, then the eight assignments
  \<^verbatim>\<open>df.loc[rows, column_name + "-direction"] = label\<close> in the order of the source
  (\<open>assign_directions\<close>), each selecting its rows by strict comparisons, and last the
  append to \<open>cat_vars\<close>. The assignments write the direction column only, so the
  percentage-change column they compare is the one read before them. An assignment that
  raises ends the call; \<open>assign_directions\<close> returns the exception, if any, and the frame
  as the assignments before it left it.
\<close>

text \<open>\<^verbatim>\<open>s.loc[s > 0]\<close> and \<^verbatim>\<open>s.loc[s < 0]\<close>: the rows with a positive, a negative value.\<close>

definition positive_rows :: "series \<Rightarrow> series" where
  "positive_rows s = filter (\<lambda>x. cell_gt x (Some 0)) s"

definition negative_rows :: "series \<Rightarrow> series" where
  "negative_rows s = filter (\<lambda>x. cell_lt x (Some 0)) s"

definition assign_directions ::
  "table \<Rightarrow> series \<Rightarrow> string \<Rightarrow> cell \<Rightarrow> cell \<Rightarrow> cell \<Rightarrow> cell \<Rightarrow> cell \<Rightarrow> cell \<Rightarrow> cell
     \<Rightarrow> error option \<times> table" where
  "assign_directions d pct dir_name lowest_ten_quantile bottom_quantile top_quantile
       top_fifteen_quantile top_five_quantile min_positive_pct min_negative_pct =
     (let SKYFALL = - 7; STRONG_DOWN = - 3; DOWN = - 1; ZERO = 0;
          UP = 1; MORE_UP = 3; STRONG_UP = 5; SKY_UP = 7
      in case loc_assign d (map (\<lambda>x. cell_lt x lowest_ten_quantile) pct) dir_name SKYFALL of
           Inl e \<Rightarrow> (Some e, d)
         | Inr d1 \<Rightarrow>
      (case loc_assign d1
              (map (\<lambda>x. cell_lt x bottom_quantile \<and> cell_gt x lowest_ten_quantile) pct)
              dir_name STRONG_DOWN of
           Inl e \<Rightarrow> (Some e, d1)
         | Inr d2 \<Rightarrow>
      (case loc_assign d2
              (map (\<lambda>x. cell_lt x min_negative_pct \<and> cell_gt x bottom_quantile) pct)
              dir_name DOWN of
           Inl e \<Rightarrow> (Some e, d2)
         | Inr d3 \<Rightarrow>
      (case loc_assign d3
              (map (\<lambda>x. cell_gt x min_negative_pct \<and> cell_lt x min_positive_pct) pct)
              dir_name ZERO of
           Inl e \<Rightarrow> (Some e, d3)
         | Inr d4 \<Rightarrow>
      (case loc_assign d4
              (map (\<lambda>x. cell_gt x min_positive_pct \<and> cell_lt x top_quantile) pct)
              dir_name UP of
           Inl e \<Rightarrow> (Some e, d4)
         | Inr d5 \<Rightarrow>
      (case loc_assign d5
              (map (\<lambda>x. cell_gt x top_quantile \<and> cell_lt x top_fifteen_quantile) pct)
              dir_name MORE_UP of
           Inl e \<Rightarrow> (Some e, d5)
         | Inr d6 \<Rightarrow>
      (case loc_assign d6
              (map (\<lambda>x. cell_gt x top_fifteen_quantile \<and> cell_lt x top_five_quantile) pct)
              dir_name STRONG_UP of
           Inl e \<Rightarrow> (Some e, d6)
         | Inr d7 \<Rightarrow>
      (case loc_assign d7 (map (\<lambda>x. cell_gt x top_five_quantile) pct) dir_name SKY_UP of
           Inl e \<Rightarrow> (Some e, d7)
         | Inr d8 \<Rightarrow> (None, d8)))))))))"

definition proc_add_direction :: "world \<Rightarrow> string \<Rightarrow> real \<Rightarrow> outcome" where
  "proc_add_direction w column_name noise_threshold =
     (let name = ''-direction'';
          target = column_name @ ''-pct'';
          (r, w1) = (if target \<notin> set (columns (df w))
                     then proc_add_percent_change w column_name
                     else (Inr (df w), w))
      in case r of
           Inl e \<Rightarrow> (Inl e, w1)
         | Inr d \<Rightarrow>
      (case get_col d target of
           Inl e \<Rightarrow> (Inl e, w1)
         | Inr pct \<Rightarrow>
      (case quantile (10 / 100) pct of
           Inl e \<Rightarrow> (Inl e, w1)
         | Inr lowest_ten_quantile \<Rightarrow>
      (case quantile (25 / 100) pct of
           Inl e \<Rightarrow> (Inl e, w1)
         | Inr bottom_quantile \<Rightarrow>
      (case quantile (75 / 100) pct of
           Inl e \<Rightarrow> (Inl e, w1)
         | Inr top_quantile \<Rightarrow>
      (case quantile (85 / 100) pct of
           Inl e \<Rightarrow> (Inl e, w1)
         | Inr top_fifteen_quantile \<Rightarrow>
      (case quantile (95 / 100) pct of
           Inl e \<Rightarrow> (Inl e, w1)
         | Inr top_five_quantile \<Rightarrow>
      (case quantile noise_threshold (positive_rows pct) of
           Inl e \<Rightarrow> (Inl e, w1)
         | Inr min_positive_pct \<Rightarrow>
      (case quantile (1 - noise_threshold) (negative_rows pct) of
           Inl e \<Rightarrow> (Inl e, w1)
         | Inr min_negative_pct \<Rightarrow>
      (case assign_directions d pct (column_name @ name) lowest_ten_quantile
              bottom_quantile top_quantile top_fifteen_quantile top_five_quantile
              min_positive_pct min_negative_pct of
           (Some e, d') \<Rightarrow> (Inl e, w1\<lparr>df := d'\<rparr>)
         | (None, d8) \<Rightarrow>
             (Inr d8, w1\<lparr>df := d8, cat_vars := cat_vars w1 @ [column_name @ name]\<rparr>)))))))))))"

text \<open>
  The label one row ends with, given its percentage change \<open>x\<close> and the label \<open>old\<close> it
  had before the call (NaN when the direction column is new): the eight assignments in
  their order, each overwriting what the ones before it left.
\<close>

definition relabel ::
  "cell \<Rightarrow> cell \<Rightarrow> cell \<Rightarrow> cell \<Rightarrow> cell \<Rightarrow> cell \<Rightarrow> cell \<Rightarrow> cell \<Rightarrow> cell \<Rightarrow> cell" where
  "relabel lowest_ten_quantile bottom_quantile top_quantile top_fifteen_quantile
       top_five_quantile min_positive_pct min_negative_pct x old =
     (let l1 = (if cell_lt x lowest_ten_quantile then Some (- 7) else old);
          l2 = (if cell_lt x bottom_quantile \<and> cell_gt x lowest_ten_quantile
                then Some (- 3) else l1);
          l3 = (if cell_lt x min_negative_pct \<and> cell_gt x bottom_quantile
                then Some (- 1) else l2);
          l4 = (if cell_gt x min_negative_pct \<and> cell_lt x min_positive_pct
                then Some 0 else l3);
          l5 = (if cell_gt x min_positive_pct \<and> cell_lt x top_quantile then Some 1 else l4);
          l6 = (if cell_gt x top_quantile \<and> cell_lt x top_fifteen_quantile
                then Some 3 else l5);
          l7 = (if cell_gt x top_fifteen_quantile \<and> cell_lt x top_five_quantile
                then Some 5 else l6);
          l8 = (if cell_gt x top_five_quantile then Some 7 else l7)
      in l8)"

section \<open>Volatility\<close>

text \<open>
  \<^verbatim>\<open>proc_add_volatility\<close> feeds the column, shifted by \<open>0, \<dots>, nr_days - 1\<close> rows, to an
  \<^verbatim>\<open>OnlineVariance\<close> object and stores its \<^verbatim>\<open>std\<close> in the new column. The class is not
  part of the sources at hand, so the column it yields for the shifted columns it was
  fed is the parameter \<open>std_of\<close>. With \<open>nr_days \<le> 0\<close> the loop body never runs and the
  source column is never read.
\<close>

definition proc_add_volatility ::
  "(series list \<Rightarrow> series) \<Rightarrow> world \<Rightarrow> string \<Rightarrow> int \<Rightarrow> outcome" where
  "proc_add_volatility std_of w column_name nr_days =
     (let name = column_name @ ''-volatility''
      in case (if nr_days \<le> 0 then Inr []
               else case get_col (df w) column_name of
                      Inl e \<Rightarrow> Inl e
                    | Inr c \<Rightarrow> Inr (map (\<lambda>n. shift n c) [0..nr_days - 1])) of
           Inl e \<Rightarrow> (Inl e, w)
         | Inr included \<Rightarrow>
             let d = set_col (df w) name (std_of included)
             in (Inr d, w\<lparr>df := d, cont_vars := cont_vars w @ [name]\<rparr>))"

section \<open>Indicator transforms\<close>

text \<open>
  The indicator cache is an external collaborator. A transform reaches it through
  \<^verbatim>\<open>t.get_cached_tech_indicator(indicator, stock, time_period)\<close>, which returns a frame or
  raises; it is the parameter \<open>fetch\<close> of every transform that uses it. The kinds of
  indicator are the members of the enumeration \<^verbatim>\<open>TECHIND\<close>.
\<close>

datatype TECHIND = SMA | EMA | WMA | ADX | OBV | MOM | RSI | MACD | BBANDS

type_synonym 's fetcher = "TECHIND \<Rightarrow> 's \<Rightarrow> int option \<Rightarrow> error + table"

text \<open>
  \<^verbatim>\<open>proc_add_adx\<close>, \<^verbatim>\<open>proc_add_obv\<close>, \<^verbatim>\<open>proc_add_mom\<close> and \<^verbatim>\<open>proc_add_rsi\<close>. Each ends with
  \<^verbatim>\<open>df_merge.fillna(0)\<close>, a call that returns a new frame; the result is bound to nothing
  and the merged frame itself is returned.
\<close>

definition proc_add_adx :: "'s fetcher \<Rightarrow> world \<Rightarrow> 's \<Rightarrow> bool \<Rightarrow> outcome" where
  "proc_add_adx fetch w stock change =
     (case fetch ADX stock None of
        Inl e \<Rightarrow> (Inl e, w)
      | Inr fetched \<Rightarrow>
     (case convert_date (rename_column fetched ''date'' ''Date'') ''Date'' of
        Inl e \<Rightarrow> (Inl e, w)
      | Inr adx_data \<Rightarrow>
          let w1 = w\<lparr>cont_vars := cont_vars w @ [''ADX'']\<rparr>
          in (case pd_merge (df w1) adx_data ''Date'' of
                Inl e \<Rightarrow> (Inl e, w1)
              | Inr df_merge \<Rightarrow>
                  if change
                  then (let col_name = ''ADX_CHANGE''
                        in case get_col df_merge ''ADX'' of
                             Inl e \<Rightarrow> (Inl e, w1)
                           | Inr c \<Rightarrow>
                               let df_merge' = set_col df_merge col_name (pct_change c);
                                   w2 = w1\<lparr>cont_vars := cont_vars w1 @ [col_name]\<rparr>;
                                   _ = fillna df_merge'
                               in (Inr df_merge', w2))
                  else (let _ = fillna df_merge in (Inr df_merge, w1)))))"

definition proc_add_obv :: "'s fetcher \<Rightarrow> world \<Rightarrow> 's \<Rightarrow> bool \<Rightarrow> outcome" where
  "proc_add_obv fetch w stock change =
     (case fetch OBV stock None of
        Inl e \<Rightarrow> (Inl e, w)
      | Inr fetched \<Rightarrow>
     (case convert_date (rename_column fetched ''date'' ''Date'') ''Date'' of
        Inl e \<Rightarrow> (Inl e, w)
      | Inr obv_data \<Rightarrow>
          let w1 = w\<lparr>cont_vars := cont_vars w @ [''OBV'']\<rparr>
          in (case pd_merge (df w1) obv_data ''Date'' of
                Inl e \<Rightarrow> (Inl e, w1)
              | Inr df_merge \<Rightarrow>
                  if change
                  then (let col_name = ''OBV_CHANGE''
                        in case get_col df_merge ''OBV'' of
                             Inl e \<Rightarrow> (Inl e, w1)
                           | Inr c \<Rightarrow>
                               let df_merge' = set_col df_merge col_name (pct_change c);
                                   w2 = w1\<lparr>cont_vars := cont_vars w1 @ [col_name]\<rparr>;
                                   _ = fillna df_merge'
                               in (Inr df_merge', w2))
                  else (let _ = fillna df_merge in (Inr df_merge, w1)))))"

text \<open>In \<^verbatim>\<open>proc_add_mom\<close> the merge comes before the append of \<^verbatim>\<open>"MOM"\<close>.\<close>

definition proc_add_mom :: "'s fetcher \<Rightarrow> world \<Rightarrow> 's \<Rightarrow> bool \<Rightarrow> outcome" where
  "proc_add_mom fetch w stock change =
     (case fetch MOM stock None of
        Inl e \<Rightarrow> (Inl e, w)
      | Inr fetched \<Rightarrow>
     (case convert_date (rename_column fetched ''date'' ''Date'') ''Date'' of
        Inl e \<Rightarrow> (Inl e, w)
      | Inr mom_data \<Rightarrow>
     (case pd_merge (df w) mom_data ''Date'' of
        Inl e \<Rightarrow> (Inl e, w)
      | Inr df_merge \<Rightarrow>
          let w1 = w\<lparr>cont_vars := cont_vars w @ [''MOM'']\<rparr>
          in if change
             then (let col_name = ''MOM-pct''
                   in case get_col df_merge ''MOM'' of
                        Inl e \<Rightarrow> (Inl e, w1)
                      | Inr c \<Rightarrow>
                          let df_merge' = set_col df_merge col_name (pct_change c);
                              w2 = w1\<lparr>cont_vars := cont_vars w1 @ [col_name]\<rparr>;
                              _ = fillna df_merge'
                          in (Inr df_merge', w2))
             else (let _ = fillna df_merge in (Inr df_merge, w1)))))"

definition proc_add_rsi :: "'s fetcher \<Rightarrow> world \<Rightarrow> 's \<Rightarrow> bool \<Rightarrow> outcome" where
  "proc_add_rsi fetch w stock change =
     (case fetch RSI stock None of
        Inl e \<Rightarrow> (Inl e, w)
      | Inr fetched \<Rightarrow>
     (case convert_date (rename_column fetched ''date'' ''Date'') ''Date'' of
        Inl e \<Rightarrow> (Inl e, w)
      | Inr rsi_data \<Rightarrow>
          let w1 = w\<lparr>cont_vars := cont_vars w @ [''RSI'']\<rparr>
          in (case pd_merge (df w1) rsi_data ''Date'' of
                Inl e \<Rightarrow> (Inl e, w1)
              | Inr df_merge \<Rightarrow>
                  if change
                  then (let col_name = ''RSI_CHANGE''
                        in case get_col df_merge ''RSI'' of
                             Inl e \<Rightarrow> (Inl e, w1)
                           | Inr c \<Rightarrow>
                               let df_merge' = set_col df_merge col_name (pct_change c);
                                   w2 = w1\<lparr>cont_vars := cont_vars w1 @ [col_name]\<rparr>;
                                   _ = fillna df_merge'
                               in (Inr df_merge', w2))
                  else (let _ = fillna df_merge in (Inr df_merge, w1)))))"

section \<open>Difference columns\<close>

text \<open>The statement \<^verbatim>\<open>d[new] = d[a] - d[b]\<close>: the two reads, left to right, then the
  assignment.\<close>

definition assign_diff :: "table \<Rightarrow> string \<Rightarrow> string \<Rightarrow> string \<Rightarrow> error + table" where
  "assign_diff d new a b =
     (case get_col d a of
        Inl e \<Rightarrow> Inl e
      | Inr x \<Rightarrow>
          (case get_col d b of
             Inl e \<Rightarrow> Inl e
           | Inr y \<Rightarrow> Inr (set_col d new (series_op cell_sub x y))))"

text \<open>
  The loop \<^verbatim>\<open>for c_name in ohcl\<close> that three transforms share: it adds the column
  \<open>c_name_col_name_Diff\<close> to the frame and its name to \<open>cont_vars\<close>. It returns the
  exception, if one ended it, with the frame and the list as they are then.
\<close>

fun diff_loop ::
  "string list \<Rightarrow> string \<Rightarrow> table \<Rightarrow> string list \<Rightarrow> error option \<times> table \<times> string list" where
  "diff_loop [] col_name d cv = (None, d, cv)"
| "diff_loop (c_name # rest) col_name d cv =
     (case assign_diff d (c_name @ ''_'' @ col_name @ ''_Diff'') c_name col_name of
        Inl e \<Rightarrow> (Some e, d, cv)
      | Inr d' \<Rightarrow> diff_loop rest col_name d' (cv @ [c_name @ ''_'' @ col_name @ ''_Diff'']))"

definition ohcl :: "string list" where
  "ohcl = [''Open'', ''High'', ''Low'', ''Close'']"

section \<open>OHLC average\<close>

definition proc_add_ohlc_avg :: "world \<Rightarrow> bool \<Rightarrow> string \<Rightarrow> bool \<Rightarrow> outcome" where
  "proc_add_ohlc_avg w add_diff diff_col add_ohlc_diff =
     (let col_name = ''ohlc_avg''
      in case get_col (df w) ''Open'' of Inl e \<Rightarrow> (Inl e, w) | Inr op \<Rightarrow>
        (case get_col (df w) ''High'' of Inl e \<Rightarrow> (Inl e, w) | Inr hi \<Rightarrow>
        (case get_col (df w) ''Low'' of Inl e \<Rightarrow> (Inl e, w) | Inr lo \<Rightarrow>
        (case get_col (df w) ''Close'' of Inl e \<Rightarrow> (Inl e, w) | Inr cl \<Rightarrow>
           let avg = map (\<lambda>x. cell_div x (Some 4))
                         (series_op cell_add (series_op cell_add (series_op cell_add op hi) lo) cl);
               d = set_col (df w) col_name avg;
               w1 = w\<lparr>df := d, cont_vars := cont_vars w @ [col_name]\<rparr>
           in if add_diff
              then (case assign_diff d (diff_col @ ''_'' @ col_name @ ''_Diff'') diff_col col_name of
                      Inl e \<Rightarrow> (Inl e, w1)
                    | Inr d' \<Rightarrow>
                        (Inr d', w1\<lparr>df := d',
                                     cont_vars := cont_vars w1 @ [diff_col @ ''_'' @ col_name @ ''_Diff'']\<rparr>))
              else if add_ohlc_diff
              then (case diff_loop ohcl col_name d (cont_vars w1) of
                      (Some e, d', cv) \<Rightarrow> (Inl e, w1\<lparr>df := d', cont_vars := cv\<rparr>)
                    | (None, d', cv) \<Rightarrow> (Inr d', w1\<lparr>df := d', cont_vars := cv\<rparr>))
              else (Inr d, w1)))))"

section \<open>Bollinger bands\<close>

text \<open>\<^verbatim>\<open>list.remove(x)\<close>: the first occurrence goes; ValueError when there is none.\<close>

definition list_remove :: "string list \<Rightarrow> string \<Rightarrow> error + string list" where
  "list_remove xs x = (if x \<in> set xs then Inr (remove1 x xs) else Inl ValueError)"

fun bband_loop ::
  "string list \<Rightarrow> table \<Rightarrow> string list \<Rightarrow> error option \<times> table \<times> string list" where
  "bband_loop [] d cv = (None, d, cv)"
| "bband_loop (b_name # rest) d cv =
     (case diff_loop ohcl b_name d cv of
        (Some e, d', cv') \<Rightarrow> (Some e, d', cv')
      | (None, d', cv') \<Rightarrow> bband_loop rest d' cv')"

text \<open>
  \<^verbatim>\<open>proc_add_bband\<close>. The module constant \<^verbatim>\<open>DBG\<close> is \<^verbatim>\<open>False\<close>, so the block that prints
  is never entered and is left out. The metadata update goes through
  \<^verbatim>\<open>__update_meta_data\<close>, whose result is the list \<open>cont_vars\<close> itself.
\<close>

definition proc_add_bband ::
  "'s fetcher \<Rightarrow> world \<Rightarrow> 's \<Rightarrow> string \<Rightarrow> bool \<Rightarrow> string \<Rightarrow> bool \<Rightarrow> outcome" where
  "proc_add_bband fetch w stock merge_on add_diff_to_bb diff_col add_ohlc_diff =
     (case fetch BBANDS stock None of
        Inl e \<Rightarrow> (Inl e, w)
      | Inr fetched \<Rightarrow>
     (case convert_date
             (rename_column
                (rename_column
                   (rename_column
                      (rename_column fetched ''Real Upper Band'' ''BB_UP'')
                      ''Real Middle Band'' ''BB_MID'')
                   ''Real Lower Band'' ''BB_LOW'')
                ''date'' ''Date'')
             ''Date'' of
        Inl e \<Rightarrow> (Inl e, w)
      | Inr bb_data \<Rightarrow>
          let w1 = w\<lparr>cont_vars := fst (update_meta_data (cont_vars w) (columns bb_data))\<rparr>
          in if add_diff_to_bb
             then (case pd_merge (df w1) bb_data merge_on of
                     Inl e \<Rightarrow> (Inl e, w1)
                   | Inr m0 \<Rightarrow>
                  (case assign_diff m0 ''Close_BB_UP_Diff'' diff_col ''BB_UP'' of
                     Inl e \<Rightarrow> (Inl e, w1)
                   | Inr m1 \<Rightarrow>
                       let w2 = w1\<lparr>cont_vars := cont_vars w1 @ [''Close_BB_UP_Diff'']\<rparr>
                       in (case assign_diff m1 ''Close_BB_MID_Diff'' diff_col ''BB_MID'' of
                             Inl e \<Rightarrow> (Inl e, w2)
                           | Inr m2 \<Rightarrow>
                               let w3 = w2\<lparr>cont_vars := cont_vars w2 @ [''Close_BB_MID_Diff'']\<rparr>
                               in (case assign_diff m2 ''Close_BB_LOW_Diff'' diff_col ''BB_LOW'' of
                                     Inl e \<Rightarrow> (Inl e, w3)
                                   | Inr m3 \<Rightarrow>
                                       (Inr m3,
                                        w3\<lparr>cont_vars := cont_vars w3 @ [''Close_BB_LOW_Diff'']\<rparr>)))))
             else if add_ohlc_diff
             then (case pd_merge (df w1) bb_data merge_on of
                     Inl e \<Rightarrow> (Inl e, w1)
                   | Inr df_merge \<Rightarrow>
                       (case list_remove (columns bb_data) ''Date'' of
                          Inl e \<Rightarrow> (Inl e, w1)
                        | Inr band_columns \<Rightarrow>
                            (case bband_loop band_columns df_merge (cont_vars w1) of
                               (Some e, d', cv) \<Rightarrow> (Inl e, w1\<lparr>cont_vars := cv\<rparr>)
                             | (None, d', cv) \<Rightarrow> (Inr d', w1\<lparr>cont_vars := cv\<rparr>))))
             else (pd_merge (df w1) bb_data merge_on, w1)))"

section \<open>MACD\<close>

text \<open>The loop \<^verbatim>\<open>for col in macd_columns\<close>: a percentage-change column for each.\<close>

fun change_loop ::
  "string list \<Rightarrow> table \<Rightarrow> string list \<Rightarrow> error option \<times> table \<times> string list" where
  "change_loop [] d cv = (None, d, cv)"
| "change_loop (col # rest) d cv =
     (let c_name = col @ ''_Change''
      in case get_col d col of
           Inl e \<Rightarrow> (Some e, d, cv)
         | Inr c \<Rightarrow> change_loop rest (set_col d c_name (pct_change c)) (cv @ [c_name]))"

definition proc_add_macd :: "'s fetcher \<Rightarrow> world \<Rightarrow> 's \<Rightarrow> outcome" where
  "proc_add_macd fetch w stock =
     (case fetch MACD stock None of
        Inl e \<Rightarrow> (Inl e, w)
      | Inr fetched \<Rightarrow>
     (case convert_date (rename_column fetched ''date'' ''Date'') ''Date'' of
        Inl e \<Rightarrow> (Inl e, w)
      | Inr macd_data \<Rightarrow>
          let macd = ''MACD''; macd_sign = ''MACD_Signal''; macd_hist = ''MACD_Hist'';
              w1 = w\<lparr>cont_vars := cont_vars w @ [macd, macd_sign, macd_hist]\<rparr>
          in (case pd_merge (df w1) macd_data ''Date'' of
                Inl e \<Rightarrow> (Inl e, w1)
              | Inr df_merge \<Rightarrow>
                  let col_name = ''MACD_SIGN_DIFF''
                  in (case assign_diff df_merge col_name macd macd_sign of
                        Inl e \<Rightarrow> (Inl e, w1)
                      | Inr df_merge' \<Rightarrow>
                          let w2 = w1\<lparr>cont_vars := cont_vars w1 @ [col_name]\<rparr>
                          in (case list_remove (columns macd_data) ''Date'' of
                                Inl e \<Rightarrow> (Inl e, w2)
                              | Inr macd_columns \<Rightarrow>
                                  (case change_loop macd_columns df_merge' (cont_vars w2) of
                                     (Some e, d', cv) \<Rightarrow> (Inl e, w2\<lparr>cont_vars := cv\<rparr>)
                                   | (None, d', cv) \<Rightarrow> (Inr d', w2\<lparr>cont_vars := cv\<rparr>)))))))"

section \<open>Moving averages\<close>

text \<open>\<^verbatim>\<open>__load_moving_avg\<close>: the kind of average picks the indicator, any other string
  falls back to SMA; the fetch is the first step.\<close>

definition load_moving_avg :: "'s fetcher \<Rightarrow> 's \<Rightarrow> string \<Rightarrow> int \<Rightarrow> error + table" where
  "load_moving_avg fetch stock mov_avg time_period =
     (let ind = (if mov_avg = ''sma'' then SMA
                 else if mov_avg = ''ema'' then EMA
                 else if mov_avg = ''wma'' then WMA
                 else SMA)
      in case fetch ind stock (Some time_period) of
           Inl e \<Rightarrow> Inl e
         | Inr ma_data \<Rightarrow>
             let date_col_name = ''date''
             in (case get_col ma_data date_col_name of
                   Inl e \<Rightarrow> Inl e
                 | Inr c \<Rightarrow> Inr (set_col ma_data date_col_name (to_datetime c))))"

text \<open>
  \<^verbatim>\<open>proc_add_mov_avg\<close>. The percentage change is taken on the indicator frame before the
  merge; the \<^verbatim>\<open>ma_data.fillna(0)\<close> that follows returns a new frame that is bound to
  nothing.
\<close>

definition proc_add_mov_avg ::
  "'s fetcher \<Rightarrow> world \<Rightarrow> 's \<Rightarrow> string \<Rightarrow> int \<Rightarrow> string \<Rightarrow> bool \<Rightarrow> string \<Rightarrow> bool \<Rightarrow> outcome" where
  "proc_add_mov_avg fetch w stock mov_avg time_period merge_on add_diff diff_col add_ohlc_diff =
     (case load_moving_avg fetch stock mov_avg time_period of
        Inl e \<Rightarrow> (Inl e, w)
      | Inr loaded \<Rightarrow>
          let ma_data0 = rename_column loaded ''date'' ''Date'';
              col_name = upper mov_avg @ ''_'' @ str_int time_period;
              ma_data1 = rename_column ma_data0 (upper mov_avg) col_name;
              w1 = w\<lparr>cont_vars := cont_vars w @ [col_name]\<rparr>;
              chg_name = col_name @ ''_CHANGE''
          in (case get_col ma_data1 col_name of
                Inl e \<Rightarrow> (Inl e, w1)
              | Inr c \<Rightarrow>
                  let ma_data = set_col ma_data1 chg_name (pct_change c);
                      w2 = w1\<lparr>cont_vars := cont_vars w1 @ [chg_name]\<rparr>;
                      _ = fillna ma_data
                  in if add_diff
                     then (case pd_merge (df w2) ma_data merge_on of
                             Inl e \<Rightarrow> (Inl e, w2)
                           | Inr df_merge \<Rightarrow>
                               (case assign_diff df_merge (diff_col @ ''_'' @ col_name @ ''_Diff'')
                                       diff_col col_name of
                                  Inl e \<Rightarrow> (Inl e, w2)
                                | Inr df_merge' \<Rightarrow>
                                    (Inr df_merge',
                                     w2\<lparr>cont_vars :=
                                           cont_vars w2 @ [diff_col @ ''_'' @ col_name @ ''_Diff'']\<rparr>)))
                     else if add_ohlc_diff
                     then (case pd_merge (df w2) ma_data merge_on of
                             Inl e \<Rightarrow> (Inl e, w2)
                           | Inr df_merge \<Rightarrow>
                               let col_name' = upper mov_avg @ ''_'' @ str_int time_period
                               in (case diff_loop ohcl col_name' df_merge (cont_vars w2) of
                                     (Some e, d', cv) \<Rightarrow> (Inl e, w2\<lparr>cont_vars := cv\<rparr>)
                                   | (None, d', cv) \<Rightarrow> (Inr d', w2\<lparr>cont_vars := cv\<rparr>)))
                     else (pd_merge (df w2) ma_data merge_on, w2)))"

definition proc_add_wma60 :: "'s fetcher \<Rightarrow> world \<Rightarrow> 's \<Rightarrow> bool \<Rightarrow> string \<Rightarrow> bool \<Rightarrow> outcome" where
  "proc_add_wma60 fetch w stock add_diff diff_col add_ohlc_diff =
     proc_add_mov_avg fetch w stock ''wma'' 60 ''Date'' add_diff diff_col add_ohlc_diff"

definition proc_add_wma5 :: "'s fetcher \<Rightarrow> world \<Rightarrow> 's \<Rightarrow> bool \<Rightarrow> string \<Rightarrow> bool \<Rightarrow> outcome" where
  "proc_add_wma5 fetch w stock add_diff diff_col add_ohlc_diff =
     proc_add_mov_avg fetch w stock ''wma'' 5 ''Date'' add_diff diff_col add_ohlc_diff"

definition proc_add_wma20 :: "'s fetcher \<Rightarrow> world \<Rightarrow> 's \<Rightarrow> bool \<Rightarrow> string \<Rightarrow> bool \<Rightarrow> outcome" where
  "proc_add_wma20 fetch w stock add_diff diff_col add_ohlc_diff =
     proc_add_mov_avg fetch w stock ''wma'' 20 ''Date'' add_diff diff_col add_ohlc_diff"

definition proc_add_ema30 :: "'s fetcher \<Rightarrow> world \<Rightarrow> 's \<Rightarrow> bool \<Rightarrow> string \<Rightarrow> bool \<Rightarrow> outcome" where
  "proc_add_ema30 fetch w stock add_diff diff_col add_ohlc_diff =
     proc_add_mov_avg fetch w stock ''ema'' 30 ''Date'' add_diff diff_col add_ohlc_diff"

definition proc_add_ema10 :: "'s fetcher \<Rightarrow> world \<Rightarrow> 's \<Rightarrow> bool \<Rightarrow> string \<Rightarrow> bool \<Rightarrow> outcome" where
  "proc_add_ema10 fetch w stock add_diff diff_col add_ohlc_diff =
     proc_add_mov_avg fetch w stock ''ema'' 10 ''Date'' add_diff diff_col add_ohlc_diff"

definition proc_add_sma20 :: "'s fetcher \<Rightarrow> world \<Rightarrow> 's \<Rightarrow> bool \<Rightarrow> string \<Rightarrow> bool \<Rightarrow> outcome" where
  "proc_add_sma20 fetch w stock add_diff diff_col add_ohlc_diff =
     proc_add_mov_avg fetch w stock ''sma'' 20 ''Date'' add_diff diff_col add_ohlc_diff"

definition proc_add_sma200 :: "'s fetcher \<Rightarrow> world \<Rightarrow> 's \<Rightarrow> bool \<Rightarrow> string \<Rightarrow> bool \<Rightarrow> outcome" where
  "proc_add_sma200 fetch w stock add_diff diff_col add_ohlc_diff =
     proc_add_mov_avg fetch w stock ''sma'' 200 ''Date'' add_diff diff_col add_ohlc_diff"

section \<open>Differences of two moving averages\<close>

text \<open>
  A call \<^verbatim>\<open>f(df=d, cont_vars=cont_vars, ...)\<close> whose frame argument \<open>d\<close> is a frame local to
  the caller: the callee works on \<open>d\<close> and on the shared lists, and the frame the caller
  was given is not an argument of the call.
\<close>

definition call_with :: "table \<Rightarrow> (world \<Rightarrow> outcome) \<Rightarrow> world \<Rightarrow> outcome" where
  "call_with d f w = (let (r, w') = f (w\<lparr>df := d\<rparr>) in (r, w'\<lparr>df := df w\<rparr>))"

text \<open>
  The four composite transforms have one body. The column list is read once, on entry.
  A moving average that is missing then is added by its transform, which returns a new,
  merged frame that the local name \<open>df\<close> is bound to from there on. The difference
  column is assigned to whatever \<open>df\<close> names at that point: the caller's frame itself if
  both averages were present, a local frame otherwise.
\<close>

definition add_pair_diff ::
  "string \<Rightarrow> string \<Rightarrow> string \<Rightarrow> (world \<Rightarrow> outcome) \<Rightarrow> (world \<Rightarrow> outcome) \<Rightarrow> world \<Rightarrow> outcome" where
  "add_pair_diff first_ma second_ma res_name add_first add_second w =
     (let cols = columns (df w);
          (r1, w1) = (if first_ma \<notin> set cols then add_first w else (Inr (df w), w))
      in case r1 of
           Inl e \<Rightarrow> (Inl e, w1)
         | Inr d1 \<Rightarrow>
             let (r2, w2) = (if second_ma \<notin> set cols
                             then (if first_ma \<notin> set cols then call_with d1 add_second w1
                                   else add_second w1)
                             else (Inr d1, w1))
             in (case r2 of
                   Inl e \<Rightarrow> (Inl e, w2)
                 | Inr d2 \<Rightarrow>
                     (case assign_diff d2 res_name first_ma second_ma of
                        Inl e \<Rightarrow> (Inl e, w2)
                      | Inr d3 \<Rightarrow>
                          let w3 = w2\<lparr>cont_vars := cont_vars w2 @ [res_name]\<rparr>
                          in (Inr d3,
                              if first_ma \<in> set cols \<and> second_ma \<in> set cols
                              then w3\<lparr>df := d3\<rparr> else w3))))"

definition proc_add_wma5_wma_20_diff ::
  "'s fetcher \<Rightarrow> world \<Rightarrow> 's \<Rightarrow> bool \<Rightarrow> bool \<Rightarrow> outcome" where
  "proc_add_wma5_wma_20_diff fetch w stock add_diff add_ohlc_diff =
     add_pair_diff ''WMA_5'' ''WMA_20'' ''WMA_5_EMA_20_Diff''
       (\<lambda>v. proc_add_wma5 fetch v stock add_diff ''Close'' add_ohlc_diff)
       (\<lambda>v. proc_add_wma20 fetch v stock add_diff ''Close'' add_ohlc_diff) w"

definition proc_add_wma20_wma_60_diff ::
  "'s fetcher \<Rightarrow> world \<Rightarrow> 's \<Rightarrow> bool \<Rightarrow> bool \<Rightarrow> outcome" where
  "proc_add_wma20_wma_60_diff fetch w stock add_diff add_ohlc_diff =
     add_pair_diff ''WMA_20'' ''WMA_60'' ''WMA_20_EMA_60_Diff''
       (\<lambda>v. proc_add_wma20 fetch v stock add_diff ''Close'' add_ohlc_diff)
       (\<lambda>v. proc_add_wma60 fetch v stock add_diff ''Close'' add_ohlc_diff) w"

definition proc_add_ema10_ema_30_diff ::
  "'s fetcher \<Rightarrow> world \<Rightarrow> 's \<Rightarrow> bool \<Rightarrow> bool \<Rightarrow> outcome" where
  "proc_add_ema10_ema_30_diff fetch w stock add_diff add_ohlc_diff =
     add_pair_diff ''EMA_10'' ''EMA_30'' ''EMA_10_EMA_30_Diff''
       (\<lambda>v. proc_add_ema10 fetch v stock add_diff ''Close'' add_ohlc_diff)
       (\<lambda>v. proc_add_ema30 fetch v stock add_diff ''Close'' add_ohlc_diff) w"

definition proc_add_sma20_sma_200_diff :: "'s fetcher \<Rightarrow> world \<Rightarrow> 's \<Rightarrow> bool \<Rightarrow> outcome" where
  "proc_add_sma20_sma_200_diff fetch w stock add_ohlc_diff =
     add_pair_diff ''SMA_20'' ''SMA_200'' ''SMA_200_SMA_20_Diff''
       (\<lambda>v. proc_add_sma20 fetch v stock False ''Close'' add_ohlc_diff)
       (\<lambda>v. proc_add_sma200 fetch v stock False ''Close'' add_ohlc_diff) w"

section \<open>The online variance estimator\<close>

text \<open>
  Modelled from the spec: the class \<^verbatim>\<open>OnlineVariance\<close> (module
  \<^verbatim>\<open>src.procs.OnlineVariance\<close>) is imported by the pipeline but is not among the
  sources at hand. The specification describes it as Welford's method: the estimator
  keeps \<open>count\<close>, \<open>mean\<close> and \<open>sumSquaredDeltas\<close>, all zero at the start; \<open>include(x)\<close>
  does \<open>count += 1\<close>, \<open>delta = x - mean\<close>, \<open>mean += delta / count\<close>,
  \<open>delta2 = x - mean\<close>, \<open>sumSquaredDeltas += delta * delta2\<close>; the variance is
  \<open>sumSquaredDeltas / (count - 1)\<close> when \<open>count > 1\<close> and 0 otherwise; the standard
  deviation is its square root.
\<close>

record online_variance =
  count :: nat
  mean :: real
  sumSquaredDeltas :: real

definition ov_new :: online_variance where
  "ov_new = \<lparr>count = 0, mean = 0, sumSquaredDeltas = 0\<rparr>"

definition ov_include :: "online_variance \<Rightarrow> real \<Rightarrow> online_variance" where
  "ov_include ov x =
     (let count' = count ov + 1;
          delta = x - mean ov;
          mean' = mean ov + delta / real count';
          delta2 = x - mean'
      in \<lparr>count = count', mean = mean',
          sumSquaredDeltas = sumSquaredDeltas ov + delta * delta2\<rparr>)"

definition ov_variance :: "online_variance \<Rightarrow> real" where
  "ov_variance ov =
     (if count ov > 1 then sumSquaredDeltas ov / real (count ov - 1) else 0)"

definition ov_std :: "online_variance \<Rightarrow> real" where
  "ov_std ov = sqrt (ov_variance ov)"

text \<open>Including a sequence of samples, one after the other, in a new estimator.\<close>

definition ov_include_all :: "real list \<Rightarrow> online_variance" where
  "ov_include_all xs = foldl ov_include ov_new xs"

section \<open>Sample data\<close>

text \<open>A small price table and indicator caches, for the concrete instances below.\<close>

definition price_table :: table where
  "price_table =
     [(''Date'', [Some 1, Some 2, Some 3]),
      (''Open'', [Some 10, Some 11, Some 12]),
      (''High'', [Some 12, Some 13, Some 14]),
      (''Low'', [Some 9, Some 10, Some 11]),
      (''Close'', [Some 11, Some 12, Some 13]),
      (''Volume'', [Some 100, Some 200, Some 300])]"

definition cache_down :: "string fetcher" where
  "cache_down indicator stock time_period = Inl (FetchError ''no data'')"


text \<open>Three percentage-change columns for the classifier: one whose noise threshold lies
  below its 25th percentile, one with a single negative value, one with a single
  positive value.\<close>

definition crossing_pct :: series where
  "crossing_pct = [Some (- 1), Some 1, Some 2, Some 3, Some 4]"

definition crossing :: world where
  "crossing = \<lparr>df = [(''Close-pct'', crossing_pct)], cont_vars = [''Close-pct''], cat_vars = []\<rparr>"

definition skewed_up_pct :: series where
  "skewed_up_pct = [Some (- 1), Some 1, Some 2, Some 3, Some 4, Some 5, Some 6, Some 7,
                    Some 8, Some 9, Some 10, Some 11]"

definition skewed_up :: world where
  "skewed_up = \<lparr>df = [(''Close-pct'', skewed_up_pct)], cont_vars = [''Close-pct''], cat_vars = []\<rparr>"

definition skewed_down_pct :: series where
  "skewed_down_pct = [Some (- 11), Some (- 10), Some (- 9), Some (- 8), Some (- 7), Some (- 6),
                      Some (- 5), Some (- 4), Some (- 3), Some (- 2), Some (- 1), Some 1]"

definition skewed_down :: world where
  "skewed_down = \<lparr>df = [(''Close-pct'', skewed_down_pct)], cont_vars = [''Close-pct''], cat_vars = []\<rparr>"

text \<open>Two frames without rows: one that holds the percentage-change column, one that
  holds the price column only.\<close>

definition no_rows :: world where
  "no_rows = \<lparr>df = [(''Close-pct'', [])], cont_vars = [''Close-pct''], cat_vars = []\<rparr>"


text \<open>Two frames for the normalisation: one with a gap in a price column, one with a
  missing date.\<close>

definition gappy :: table where
  "gappy = [(''Date'', [Some 1, Some 2, Some 3]), (''Close'', [Some 11, None, Some 13])]"

definition undated :: table where
  "undated = [(''Date'', [None, Some 2]), (''Close'', [Some 1, Some 3])]"

text \<open>Names that the suffixes of a merge cannot produce.\<close>

definition unsuffixed :: "string \<Rightarrow> bool" where
  "unsuffixed n = (drop (length n - 2) n \<noteq> ''_x'' \<and> drop (length n - 2) n \<noteq> ''_y'')"

text \<open>The frames of the interface contract: the price table with its six base columns,
  and the frame the indicator cache returns for each kind, with a lower-case date column.\<close>

definition indicator_frame :: "TECHIND \<Rightarrow> series \<Rightarrow> series \<Rightarrow> series \<Rightarrow> series \<Rightarrow> table" where
  "indicator_frame kind dates a b c =
     (case kind of
        SMA \<Rightarrow> [(''date'', dates), (''SMA'', a)]
      | EMA \<Rightarrow> [(''date'', dates), (''EMA'', a)]
      | WMA \<Rightarrow> [(''date'', dates), (''WMA'', a)]
      | ADX \<Rightarrow> [(''date'', dates), (''ADX'', a)]
      | OBV \<Rightarrow> [(''date'', dates), (''OBV'', a)]
      | MOM \<Rightarrow> [(''date'', dates), (''MOM'', a)]
      | RSI \<Rightarrow> [(''date'', dates), (''RSI'', a)]
      | MACD \<Rightarrow> [(''date'', dates), (''MACD'', a), (''MACD_Signal'', b), (''MACD_Hist'', c)]
      | BBANDS \<Rightarrow> [(''date'', dates), (''Real Upper Band'', a), (''Real Middle Band'', b),
                    (''Real Lower Band'', c)])"



definition cache_up :: "string fetcher" where
  "cache_up kind stock time_period =
     Inr (indicator_frame kind [Some 2, Some 3, Some 4] [Some 20, Some 30, Some 40]
            [Some 2, Some 3, Some 4] [Some 1, Some 3, Some 4])"

text \<open>A cache whose indicator frames start one day before the prices of \<open>late\<close>.\<close>

definition cache_early :: "string fetcher" where
  "cache_early kind stock time_period =
     Inr (indicator_frame kind [Some 1, Some 2, Some 3] [Some 20, Some 30, Some 40]
            [Some 2, Some 3, Some 4] [Some 1, Some 3, Some 4])"

definition late :: world where
  "late = \<lparr>df = [(''Date'', [Some 2, Some 3]), (''Close'', [Some 12, Some 13])],
            cont_vars = [], cat_vars = []\<rparr>"

definition prices :: world where
  "prices = \<lparr>df = price_table, cont_vars = [], cat_vars = []\<rparr>"

definition merged_prices :: table where
  "merged_prices =
     [(''Date'', [Some 2, Some 3]),
      (''Open'', [Some 11, Some 12]),
      (''High'', [Some 13, Some 14]),
      (''Low'', [Some 10, Some 11]),
      (''Close'', [Some 12, Some 13]),
      (''Volume'', [Some 200, Some 300])]"

section \<open>The pipeline\<close>

text \<open>
  The transforms of the pipeline, each with the arguments a call passes besides the
  frame and the two lists. \<open>after_call\<close> is the state of the caller's frame and lists
  after one call; calling a transform again with the same arguments means calling it on
  that state, since the frame and the lists are the same objects.
\<close>

datatype 's transform =
    Close_only
  | Add_datepart string
  | Add_next_y string int
  | Add_previous_values string int
  | Add_percent_change string
  | Add_abs_percent_change string
  | Add_direction string real
  | Add_volatility string int
  | Add_adx 's bool
  | Add_obv 's bool
  | Add_mom 's bool
  | Add_rsi 's bool
  | Add_ohlc_avg bool string bool
  | Add_bband 's string bool string bool
  | Add_macd 's
  | Add_wma5_wma_20_diff 's bool bool
  | Add_wma20_wma_60_diff 's bool bool
  | Add_wma60 's bool string bool
  | Add_wma5 's bool string bool
  | Add_wma20 's bool string bool
  | Add_ema10_ema_30_diff 's bool bool
  | Add_ema30 's bool string bool
  | Add_ema10 's bool string bool
  | Add_sma20_sma_200_diff 's bool
  | Add_sma20 's bool string bool
  | Add_sma200 's bool string bool
  | Add_mov_avg 's string int string bool string bool

fun after_call :: "'s fetcher \<Rightarrow> (series list \<Rightarrow> series) \<Rightarrow> 's transform \<Rightarrow> world \<Rightarrow> world" where
  "after_call fetch std_of Close_only w = snd (proc_close_only w)"
| "after_call fetch std_of (Add_datepart date_col_name) w = snd (proc_add_datepart w date_col_name)"
| "after_call fetch std_of (Add_next_y y_column number) w = snd (proc_add_next_y w y_column number)"
| "after_call fetch std_of (Add_previous_values column_name number) w =
     snd (proc_add_previous_values w column_name number)"
| "after_call fetch std_of (Add_percent_change column_name) w =
     snd (proc_add_percent_change w column_name)"
| "after_call fetch std_of (Add_abs_percent_change column_name) w =
     snd (proc_add_abs_percent_change w column_name)"
| "after_call fetch std_of (Add_direction column_name noise_threshold) w =
     snd (proc_add_direction w column_name noise_threshold)"
| "after_call fetch std_of (Add_volatility column_name nr_days) w =
     snd (proc_add_volatility std_of w column_name nr_days)"
| "after_call fetch std_of (Add_adx stock change) w = snd (proc_add_adx fetch w stock change)"
| "after_call fetch std_of (Add_obv stock change) w = snd (proc_add_obv fetch w stock change)"
| "after_call fetch std_of (Add_mom stock change) w = snd (proc_add_mom fetch w stock change)"
| "after_call fetch std_of (Add_rsi stock change) w = snd (proc_add_rsi fetch w stock change)"
| "after_call fetch std_of (Add_ohlc_avg add_diff diff_col add_ohlc_diff) w =
     snd (proc_add_ohlc_avg w add_diff diff_col add_ohlc_diff)"
| "after_call fetch std_of (Add_bband stock merge_on add_diff_to_bb diff_col add_ohlc_diff) w =
     snd (proc_add_bband fetch w stock merge_on add_diff_to_bb diff_col add_ohlc_diff)"
| "after_call fetch std_of (Add_macd stock) w = snd (proc_add_macd fetch w stock)"
| "after_call fetch std_of (Add_wma5_wma_20_diff stock add_diff add_ohlc_diff) w =
     snd (proc_add_wma5_wma_20_diff fetch w stock add_diff add_ohlc_diff)"
| "after_call fetch std_of (Add_wma20_wma_60_diff stock add_diff add_ohlc_diff) w =
     snd (proc_add_wma20_wma_60_diff fetch w stock add_diff add_ohlc_diff)"
| "after_call fetch std_of (Add_wma60 stock add_diff diff_col add_ohlc_diff) w =
     snd (proc_add_wma60 fetch w stock add_diff diff_col add_ohlc_diff)"
| "after_call fetch std_of (Add_wma5 stock add_diff diff_col add_ohlc_diff) w =
     snd (proc_add_wma5 fetch w stock add_diff diff_col add_ohlc_diff)"
| "after_call fetch std_of (Add_wma20 stock add_diff diff_col add_ohlc_diff) w =
     snd (proc_add_wma20 fetch w stock add_diff diff_col add_ohlc_diff)"
| "after_call fetch std_of (Add_ema10_ema_30_diff stock add_diff add_ohlc_diff) w =
     snd (proc_add_ema10_ema_30_diff fetch w stock add_diff add_ohlc_diff)"
| "after_call fetch std_of (Add_ema30 stock add_diff diff_col add_ohlc_diff) w =
     snd (proc_add_ema30 fetch w stock add_diff diff_col add_ohlc_diff)"
| "after_call fetch std_of (Add_ema10 stock add_diff diff_col add_ohlc_diff) w =
     snd (proc_add_ema10 fetch w stock add_diff diff_col add_ohlc_diff)"
| "after_call fetch std_of (Add_sma20_sma_200_diff stock add_ohlc_diff) w =
     snd (proc_add_sma20_sma_200_diff fetch w stock add_ohlc_diff)"
| "after_call fetch std_of (Add_sma20 stock add_diff diff_col add_ohlc_diff) w =
     snd (proc_add_sma20 fetch w stock add_diff diff_col add_ohlc_diff)"
| "after_call fetch std_of (Add_sma200 stock add_diff diff_col add_ohlc_diff) w =
     snd (proc_add_sma200 fetch w stock add_diff diff_col add_ohlc_diff)"
| "after_call fetch std_of
     (Add_mov_avg stock mov_avg time_period merge_on add_diff diff_col add_ohlc_diff) w =
     snd (proc_add_mov_avg fetch w stock mov_avg time_period merge_on add_diff diff_col
            add_ohlc_diff)"

text \<open>The lists only grow: the lists before the call are prefixes of the lists after it.\<close>

definition appends_only :: "world \<Rightarrow> world \<Rightarrow> bool" where
  "appends_only w w' = (prefix (cont_vars w) (cont_vars w') \<and> prefix (cat_vars w) (cat_vars w'))"

text \<open>The names a call appended to a list, and the statement that a second call with
  the same arguments appends the same names to both lists once more.\<close>

definition appended :: "string list \<Rightarrow> string list \<Rightarrow> string list" where
  "appended before after = drop (length before) after"

definition appends_again ::
  "'s fetcher \<Rightarrow> (series list \<Rightarrow> series) \<Rightarrow> 's transform \<Rightarrow> world \<Rightarrow> bool" where
  "appends_again fetch std_of tr w =
     (let w1 = after_call fetch std_of tr w;
          w2 = after_call fetch std_of tr w1
      in cont_vars w2 = cont_vars w1 @ appended (cont_vars w) (cont_vars w1)
         \<and> cat_vars w2 = cat_vars w1 @ appended (cat_vars w) (cat_vars w1))"

text \<open>A volatility column for the instances: the estimator is not at hand, and the
  instances never read the column.\<close>

definition no_volatility :: "series list \<Rightarrow> series" where
  "no_volatility included = []"

section \<open>Properties of the metadata helper\<close>

lemma update_meta_data_with_Date:
  "''Date'' \<in> set column_names \<Longrightarrow> fst (update_meta_data var column_names) = var"
  by (simp add: update_meta_data_def)

lemma update_meta_data_without_Date:
  "''Date'' \<notin> set column_names \<Longrightarrow>
     fst (update_meta_data var column_names) = var @ column_names"
  by (simp add: update_meta_data_def)

text \<open>
  Claim C2. The bulk-update helper is claimed to append every given name except
  \<^verbatim>\<open>"Date"\<close>. On the names of a Bollinger-band table, which contain \<^verbatim>\<open>"Date"\<close>, it
  appends nothing: the metadata list is returned as it was, and the three band names are
  not registered.
\<close>

theorem update_meta_data_drops_all_names:
  "update_meta_data [''Close''] [''Date'', ''BB_UP'', ''BB_MID'', ''BB_LOW'']
     = ([''Close''], [''BB_UP'', ''BB_MID'', ''BB_LOW''])"
  by (simp add: update_meta_data_def)

section \<open>Properties of the variance estimator\<close>

lemma ov_count: "count (foldl ov_include ov xs) = count ov + length xs"
  by (induction xs arbitrary: ov) (simp_all add: ov_include_def Let_def)

lemma ov_constant_step:
  "ov_include \<lparr>count = Suc n, mean = c, sumSquaredDeltas = 0\<rparr> c
     = \<lparr>count = Suc (Suc n), mean = c, sumSquaredDeltas = 0\<rparr>"
  by (simp add: ov_include_def Let_def)

lemma ov_constant:
  "ov_include_all (replicate (Suc n) c) = \<lparr>count = Suc n, mean = c, sumSquaredDeltas = 0\<rparr>"
proof (induction n)
  case 0
  show ?case by (simp add: ov_include_all_def ov_include_def ov_new_def Let_def)
next
  case (Suc n)
  have "replicate (Suc (Suc n)) c = replicate (Suc n) c @ [c]"
    using replicate_append_same [of "Suc n" c] by simp
  then have "ov_include_all (replicate (Suc (Suc n)) c)
      = ov_include (ov_include_all (replicate (Suc n) c)) c"
    by (simp only: ov_include_all_def foldl_append foldl.simps)
  then show ?case using Suc by (simp add: ov_constant_step)
qed

text \<open>
  Claim C6. With fewer than two samples included the variance is 0; after two or more
  inclusions of one value it is 0; after 1, 2, 3, 4, 5 it is 5/2. The operations are
  total: the divisors are \<open>count + 1\<close> and, under \<open>count > 1\<close>, \<open>count - 1\<close>.
\<close>

theorem online_variance_welford:
  "(length xs < 2 \<longrightarrow> ov_variance (ov_include_all xs) = 0)
   \<and> (2 \<le> n \<longrightarrow> ov_variance (ov_include_all (replicate n c)) = 0)
   \<and> ov_variance (ov_include_all [1, 2, 3, 4, 5]) = 5 / 2"
proof (intro conjI impI)
  assume "length xs < 2"
  then show "ov_variance (ov_include_all xs) = 0"
    by (simp add: ov_variance_def ov_include_all_def ov_count ov_new_def)
next
  assume "2 \<le> n"
  then obtain m where "n = Suc m" by (cases n) auto
  then have "ov_include_all (replicate n c) = \<lparr>count = Suc m, mean = c, sumSquaredDeltas = 0\<rparr>"
    by (simp only: ov_constant)
  then show "ov_variance (ov_include_all (replicate n c)) = 0"
    by (simp add: ov_variance_def)
next
  show "ov_variance (ov_include_all [1, 2, 3, 4, 5]) = 5 / 2"
    by (simp add: ov_variance_def ov_include_all_def ov_include_def ov_new_def Let_def)
qed

theorem online_variance_welford_witness:
  "ov_variance (ov_include_all [3]) = 0
   \<and> ov_variance (ov_include_all (replicate 2 7)) = 0
   \<and> ov_variance (ov_include_all [1, 2, 3, 4, 5]) = 5 / 2"
  using online_variance_welford [of "[3]" 2 7] by simp

section \<open>A failing fetch\<close>

lemma proc_add_adx_fetch_fails:
  "fetch ADX stock None = Inl e \<Longrightarrow> proc_add_adx fetch w stock change = (Inl e, w)"
  by (simp add: proc_add_adx_def)

lemma proc_add_obv_fetch_fails:
  "fetch OBV stock None = Inl e \<Longrightarrow> proc_add_obv fetch w stock change = (Inl e, w)"
  by (simp add: proc_add_obv_def)

lemma proc_add_mom_fetch_fails:
  "fetch MOM stock None = Inl e \<Longrightarrow> proc_add_mom fetch w stock change = (Inl e, w)"
  by (simp add: proc_add_mom_def)

lemma proc_add_rsi_fetch_fails:
  "fetch RSI stock None = Inl e \<Longrightarrow> proc_add_rsi fetch w stock change = (Inl e, w)"
  by (simp add: proc_add_rsi_def)

lemma proc_add_bband_fetch_fails:
  "fetch BBANDS stock None = Inl e \<Longrightarrow>
     proc_add_bband fetch w stock merge_on add_diff_to_bb diff_col add_ohlc_diff = (Inl e, w)"
  by (simp add: proc_add_bband_def)

lemma proc_add_macd_fetch_fails:
  "fetch MACD stock None = Inl e \<Longrightarrow> proc_add_macd fetch w stock = (Inl e, w)"
  by (simp add: proc_add_macd_def)

lemma proc_add_mov_avg_fetch_fails:
  "fetch (if mov_avg = ''sma'' then SMA else if mov_avg = ''ema'' then EMA
          else if mov_avg = ''wma'' then WMA else SMA) stock (Some time_period) = Inl e \<Longrightarrow>
     proc_add_mov_avg fetch w stock mov_avg time_period merge_on add_diff diff_col add_ohlc_diff
       = (Inl e, w)"
  by (simp add: proc_add_mov_avg_def load_moving_avg_def Let_def)

text \<open>
  Claim C10. In each of the seven transforms that read the indicator cache the fetch is
  the first step: when it raises, the call ends with that exception and the caller's
  frame and both metadata lists are as they were before the call.
\<close>

theorem fetch_failure_leaves_state:
  "(fetch ADX stock None = Inl e \<longrightarrow> proc_add_adx fetch w stock change = (Inl e, w))
   \<and> (fetch OBV stock None = Inl e \<longrightarrow> proc_add_obv fetch w stock change = (Inl e, w))
   \<and> (fetch MOM stock None = Inl e \<longrightarrow> proc_add_mom fetch w stock change = (Inl e, w))
   \<and> (fetch RSI stock None = Inl e \<longrightarrow> proc_add_rsi fetch w stock change = (Inl e, w))
   \<and> (fetch BBANDS stock None = Inl e \<longrightarrow>
        proc_add_bband fetch w stock merge_on add_diff diff_col add_ohlc_diff = (Inl e, w))
   \<and> (fetch MACD stock None = Inl e \<longrightarrow> proc_add_macd fetch w stock = (Inl e, w))
   \<and> (fetch (if mov_avg = ''sma'' then SMA else if mov_avg = ''ema'' then EMA
              else if mov_avg = ''wma'' then WMA else SMA) stock (Some time_period) = Inl e \<longrightarrow>
        proc_add_mov_avg fetch w stock mov_avg time_period merge_on add_diff diff_col
          add_ohlc_diff = (Inl e, w))"
  by (intro conjI impI proc_add_adx_fetch_fails proc_add_obv_fetch_fails
        proc_add_mom_fetch_fails proc_add_rsi_fetch_fails proc_add_bband_fetch_fails
        proc_add_macd_fetch_fails proc_add_mov_avg_fetch_fails)

theorem fetch_failure_leaves_state_witness:
  "(let w = \<lparr>df = price_table, cont_vars = [''Close''], cat_vars = [''Close-direction'']\<rparr>;
        r = (Inl (FetchError ''no data''), w)
    in proc_add_adx cache_down w ''AMZN'' True = r
       \<and> proc_add_obv cache_down w ''AMZN'' True = r
       \<and> proc_add_mom cache_down w ''AMZN'' True = r
       \<and> proc_add_rsi cache_down w ''AMZN'' True = r
       \<and> proc_add_bband cache_down w ''AMZN'' ''Date'' False ''Close'' False = r
       \<and> proc_add_macd cache_down w ''AMZN'' = r
       \<and> proc_add_mov_avg cache_down w ''AMZN'' ''sma'' 20 ''Date'' False ''Close'' False = r)"
  using fetch_failure_leaves_state [of cache_down "''AMZN''" "FetchError ''no data''"
      "\<lparr>df = price_table, cont_vars = [''Close''], cat_vars = [''Close-direction'']\<rparr>"
      True "''Date''" False "''Close''" False "''sma''" 20]
  by (simp add: cache_down_def)

section \<open>Properties of the frame operations\<close>

lemma map_of_replace_absent:
  "map_of (map (\<lambda>(m, c). if m = n then (m, s) else (m, c)) t) k
       = (if k = n then (if n \<in> fst ` set t then Some s else None) else map_of t k)"
  by (induction t) (auto split: if_splits)

lemma map_of_set_col:
  "map_of (set_col t n s) k = (if k = n then Some s else map_of t k)"
proof (cases "n \<in> fst ` set t")
  case True
  then show ?thesis by (simp add: set_col_def columns_def map_of_replace_absent)
next
  case False
  then have "map_of t n = None" by (simp add: map_of_eq_None_iff)
  with False show ?thesis
    by (auto simp: set_col_def columns_def map_add_def split: option.splits)
qed

lemma get_col_set_col:
  "get_col (set_col t n s) k = (if k = n then Inr s else get_col t k)"
  by (simp add: get_col_def map_of_set_col)

lemma map_fst_replace:
  "map fst (map (\<lambda>(m, c). if m = n then (m, s) else (m, c)) t) = map fst t"
  by (induction t) auto

lemma columns_set_col:
  "columns (set_col t n s) = (if n \<in> set (columns t) then columns t else columns t @ [n])"
  using map_fst_replace [of n s t] by (simp add: set_col_def columns_def del: map_map)

lemma get_col_Inr_columns: "get_col t n = Inr c \<Longrightarrow> n \<in> set (columns t)"
  by (auto simp: get_col_def columns_def split: option.splits dest: map_of_SomeD)
    (metis fst_conv image_eqI map_of_SomeD)

lemma get_col_columns: "n \<in> set (columns t) \<Longrightarrow> \<exists>c. get_col t n = Inr c"
  by (cases "map_of t n") (auto simp: get_col_def columns_def map_of_eq_None_iff)

lemma get_col_loc_set:
  "get_col (loc_set t sel n v) k
     = (if k = n then Inr (map (\<lambda>(m, x). if m then Some v else x) (zip sel (col_or_nan t n)))
        else get_col t k)"
  by (simp add: loc_set_def get_col_set_col)

lemma col_or_nan_loc_set:
  "col_or_nan (loc_set t sel n v) n
     = map (\<lambda>(m, x). if m then Some v else x) (zip sel (col_or_nan t n))"
  by (simp add: loc_set_def col_or_nan_def map_of_set_col)

lemma columns_loc_set: "n \<in> set (columns (loc_set t sel n v))"
  by (simp add: loc_set_def columns_set_col)

lemma loc_assign_present:
  "n \<in> set (columns t) \<Longrightarrow> loc_assign t sel n v = Inr (loc_set t sel n v)"
  by (simp add: loc_assign_def)

lemma loc_assign_rows:
  "nrows t \<noteq> 0 \<Longrightarrow> loc_assign t sel n v = Inr (loc_set t sel n v)"
  by (simp add: loc_assign_def)

lemma loc_assign_no_rows:
  "n \<notin> set (columns t) \<Longrightarrow> nrows t = 0 \<Longrightarrow> loc_assign t sel n v = Inl ValueError"
  by (simp add: loc_assign_def)

lemma length_ffill_from: "length (ffill_from p xs) = length xs"
  by (induction p xs rule: ffill_from.induct) simp_all


lemma length_shift_one: "length (shift 1 s) = length s"
  by (simp add: shift_def)

lemma length_pct_change: "length (pct_change s) = length s"
  by (simp add: pct_change_def Let_def ffill_def length_ffill_from length_shift_one)

lemma shift_one_nth:
  "i < length s \<Longrightarrow> shift 1 s ! i = (if i = 0 then None else s ! (i - 1))"
  by (cases i) (simp_all add: shift_def)

lemma pct_change_nth:
  "i < length s \<Longrightarrow>
     pct_change s ! i
       = (if i = 0 then None
          else cell_sub (cell_div (ffill s ! i) (ffill s ! (i - 1))) (Some 1))"
  by (simp add: pct_change_def Let_def ffill_def length_ffill_from length_shift_one
      shift_one_nth cell_div_def cell_sub_def cell_lift2_def split: option.splits)

lemma pct_change_first: "s \<noteq> [] \<Longrightarrow> pct_change s ! 0 = None"
  by (simp add: pct_change_nth)


lemma quantile_in_range:
  "0 \<le> q \<Longrightarrow> q \<le> 1 \<Longrightarrow> quantile q s = Inr (quantile_value q s)"
  by (simp add: quantile_def)

text \<open>The eight assignments: the first one raises on a frame without rows and without
  the direction column; otherwise all eight go through.\<close>

lemma assign_directions_runs:
  "assign_directions d pct n p10 p25 p75 p85 p95 mp mn =
     (if n \<notin> set (columns d) \<and> nrows d = 0 then (Some ValueError, d)
      else (None,
        loc_set (loc_set (loc_set (loc_set (loc_set (loc_set (loc_set (loc_set d
          (map (\<lambda>x. cell_lt x p10) pct) n (- 7))
          (map (\<lambda>x. cell_lt x p25 \<and> cell_gt x p10) pct) n (- 3))
          (map (\<lambda>x. cell_lt x mn \<and> cell_gt x p25) pct) n (- 1))
          (map (\<lambda>x. cell_gt x mn \<and> cell_lt x mp) pct) n 0)
          (map (\<lambda>x. cell_gt x mp \<and> cell_lt x p75) pct) n 1)
          (map (\<lambda>x. cell_gt x p75 \<and> cell_lt x p85) pct) n 3)
          (map (\<lambda>x. cell_gt x p85 \<and> cell_lt x p95) pct) n 5)
          (map (\<lambda>x. cell_gt x p95) pct) n 7))"
proof (cases "n \<notin> set (columns d) \<and> nrows d = 0")
  case True
  then show ?thesis
    by (simp add: assign_directions_def Let_def loc_assign_no_rows)
next
  case False
  then have "loc_assign d sel n v = Inr (loc_set d sel n v)" for sel v
    by (auto simp: loc_assign_def)
  then show ?thesis
    using False
    by (simp add: assign_directions_def Let_def loc_assign_present columns_loc_set)
qed

lemma assign_directions_raises:
  "n \<notin> set (columns d) \<Longrightarrow> nrows d = 0 \<Longrightarrow>
     assign_directions d pct n p10 p25 p75 p85 p95 mp mn = (Some ValueError, d)"
  by (simp add: assign_directions_runs)

lemma assign_directions_returns:
  assumes "n \<in> set (columns d) \<or> nrows d \<noteq> 0"
  shows "\<exists>d8. assign_directions d pct n p10 p25 p75 p85 p95 mp mn = (None, d8)"
  using assms by (auto simp: assign_directions_runs)

lemma assign_directions_no_KeyError:
  "fst (assign_directions d pct n p10 p25 p75 p85 p95 mp mn) \<noteq> Some (KeyError k)"
  by (simp add: assign_directions_runs)


lemma get_col_assign_directions_raised:
  assumes "assign_directions d pct n p10 p25 p75 p85 p95 mp mn = (Some e, d')"
  shows "d' = d \<and> e = ValueError"
  using assms by (auto simp: assign_directions_runs split: if_splits)

section \<open>The classifier derives a missing percentage-change column\<close>

lemma direction_name_neq_pct: "cn @ ''-pct'' \<noteq> cn @ ''-direction''"
  by simp


lemma wf_table_column_length:
  "wf_table t \<Longrightarrow> get_col t n = Inr c \<Longrightarrow> length c = nrows t"
  by (auto simp: wf_table_def get_col_def list_all_iff split: option.splits dest!: map_of_SomeD)






section \<open>Quantiles grow with the fraction\<close>

lemma interpolate_position_mono:
  fixes vs :: "real list"
  assumes srt: "sorted vs" and ne: "vs \<noteq> []"
    and p0: "0 \<le> p" and pp: "p \<le> p'" and p1: "p' \<le> real (length vs - 1)"
  shows "vs ! nat \<lfloor>p\<rfloor> + (vs ! min (nat \<lfloor>p\<rfloor> + 1) (length vs - 1) - vs ! nat \<lfloor>p\<rfloor>)
             * (p - real (nat \<lfloor>p\<rfloor>))
       \<le> vs ! nat \<lfloor>p'\<rfloor> + (vs ! min (nat \<lfloor>p'\<rfloor> + 1) (length vs - 1) - vs ! nat \<lfloor>p'\<rfloor>)
             * (p' - real (nat \<lfloor>p'\<rfloor>))"
proof -
  define m where "m = length vs - 1"
  define lo where "lo = nat \<lfloor>p\<rfloor>"
  define lo' where "lo' = nat \<lfloor>p'\<rfloor>"
  define hi where "hi = min (lo + 1) m"
  define hi' where "hi' = min (lo' + 1) m"
  have m: "m < length vs" using ne by (simp add: m_def)
  have p0': "0 \<le> p'" using p0 pp by simp
  have lo_le: "real lo \<le> p" and lo_gt: "p < real lo + 1"
    using p0 by (simp_all add: lo_def)
  have lo'_le: "real lo' \<le> p'" and lo'_gt: "p' < real lo' + 1"
    using p0' by (simp_all add: lo'_def)
  have "real lo' \<le> real m" using lo'_le p1 by (simp add: m_def)
  then have lo'_m: "lo' \<le> m" by simp
  have lo_lo': "lo \<le> lo'"
    unfolding lo_def lo'_def using pp by (simp add: floor_mono nat_mono)
  have lo_m: "lo \<le> m" using lo_lo' lo'_m by simp
  have lo_hi: "lo \<le> hi" "hi \<le> m" "lo' \<le> hi'" "hi' \<le> m"
    using lo_m lo'_m by (simp_all add: hi_def hi'_def)
  have a_b: "vs ! lo \<le> vs ! hi"
    using srt lo_hi m by (simp add: sorted_nth_mono)
  have a_b': "vs ! lo' \<le> vs ! hi'"
    using srt lo_hi m by (simp add: sorted_nth_mono)
  have goal: "vs ! lo + (vs ! hi - vs ! lo) * (p - real lo)
       \<le> vs ! lo' + (vs ! hi' - vs ! lo') * (p' - real lo')"
  proof (cases "lo = lo'")
    case True
    then have "hi = hi'" by (simp add: hi_def hi'_def)
    moreover have "(vs ! hi - vs ! lo) * (p - real lo) \<le> (vs ! hi - vs ! lo) * (p' - real lo)"
      using a_b pp by (intro mult_left_mono) simp_all
    ultimately show ?thesis using True by simp
  next
    case False
    then have lt: "lo + 1 \<le> lo'" using lo_lo' by simp
    then have hi_eq: "hi = lo + 1" using lo'_m by (simp add: hi_def)
    have "(vs ! hi - vs ! lo) * (p - real lo) \<le> (vs ! hi - vs ! lo) * 1"
      using a_b lo_gt by (intro mult_left_mono) simp_all
    then have "vs ! lo + (vs ! hi - vs ! lo) * (p - real lo) \<le> vs ! hi" by simp
    also have "vs ! hi \<le> vs ! lo'"
      using srt lt hi_eq lo'_m m by (simp add: sorted_nth_mono)
    also have "vs ! lo' \<le> vs ! lo' + (vs ! hi' - vs ! lo') * (p' - real lo')"
      using a_b' lo'_le by simp
    finally show ?thesis .
  qed
  then show ?thesis
    by (simp only: lo_def lo'_def hi_def hi'_def m_def)
qed

lemma interpolate_mono:
  assumes "sorted vs" "vs \<noteq> []" "0 \<le> q" "q \<le> q'" "q' \<le> 1"
  shows "interpolate q vs \<le> interpolate q' vs"
proof -
  have "0 \<le> q * real (length vs - 1)" using assms by simp
  moreover have "q * real (length vs - 1) \<le> q' * real (length vs - 1)"
    using assms by (simp add: mult_right_mono)
  moreover have "q' * real (length vs - 1) \<le> real (length vs - 1)"
    using assms by (simp add: mult_left_le_one_le)
  ultimately show ?thesis
    unfolding interpolate_def Let_def
    using assms(1,2) by (rule interpolate_position_mono [rotated 2])
qed

lemma quantile_value_mono:
  assumes "quantile_value q s = Some a" "0 \<le> q" "q \<le> q'" "q' \<le> 1"
  shows "\<exists>b. quantile_value q' s = Some b \<and> a \<le> b"
proof -
  have ne: "sort (dropna s) \<noteq> []"
    using assms(1) by (auto simp: quantile_value_def Let_def split: if_splits)
  then have "a = interpolate q (sort (dropna s))"
    using assms(1) by (simp add: quantile_value_def Let_def)
  moreover have "quantile_value q' s = Some (interpolate q' (sort (dropna s)))"
    using ne by (simp add: quantile_value_def Let_def)
  moreover have "interpolate q (sort (dropna s)) \<le> interpolate q' (sort (dropna s))"
    using ne assms(2-4) by (intro interpolate_mono) simp_all
  ultimately show ?thesis by simp
qed

section \<open>What the classifier labels\<close>

lemma col_or_nan_assign_directions:
  assumes "assign_directions d pct n p10 p25 p75 p85 p95 mp mn = (None, d8)"
  shows "col_or_nan d8 n
     = map (\<lambda>(x, old). relabel p10 p25 p75 p85 p95 mp mn x old) (zip pct (col_or_nan d n))"
proof -
  have "d8 = loc_set (loc_set (loc_set (loc_set (loc_set (loc_set (loc_set (loc_set d
          (map (\<lambda>x. cell_lt x p10) pct) n (- 7))
          (map (\<lambda>x. cell_lt x p25 \<and> cell_gt x p10) pct) n (- 3))
          (map (\<lambda>x. cell_lt x mn \<and> cell_gt x p25) pct) n (- 1))
          (map (\<lambda>x. cell_gt x mn \<and> cell_lt x mp) pct) n 0)
          (map (\<lambda>x. cell_gt x mp \<and> cell_lt x p75) pct) n 1)
          (map (\<lambda>x. cell_gt x p75 \<and> cell_lt x p85) pct) n 3)
          (map (\<lambda>x. cell_gt x p85 \<and> cell_lt x p95) pct) n 5)
          (map (\<lambda>x. cell_gt x p95) pct) n 7"
    using assms by (simp add: assign_directions_runs split: if_splits)
  then show ?thesis
    by (intro nth_equalityI) (simp_all add: col_or_nan_loc_set relabel_def)
qed

lemma get_col_assign_directions_same:
  assumes "assign_directions d pct n p10 p25 p75 p85 p95 mp mn = (None, d8)"
  shows "get_col d8 n = Inr (col_or_nan d8 n)"
  using assms
  by (auto simp: assign_directions_runs get_col_loc_set col_or_nan_loc_set split: if_splits)

lemma wf_table_col_or_nan_length:
  "wf_table t \<Longrightarrow> length (col_or_nan t n) = nrows t"
  by (auto simp: wf_table_def col_or_nan_def list_all_iff split: option.splits dest!: map_of_SomeD)

lemma proc_add_direction_present:
  assumes "get_col (df w) (cn @ ''-pct'') = Inr pct" "0 \<le> nt" "nt \<le> 1"
    and "nrows (df w) \<noteq> 0"
  shows "\<exists>d. assign_directions (df w) pct (cn @ ''-direction'')
                (quantile_value (10 / 100) pct) (quantile_value (25 / 100) pct)
                (quantile_value (75 / 100) pct) (quantile_value (85 / 100) pct)
                (quantile_value (95 / 100) pct)
                (quantile_value nt (positive_rows pct))
                (quantile_value (1 - nt) (negative_rows pct)) = (None, d)
           \<and> proc_add_direction w cn nt
               = (Inr d, w\<lparr>df := d, cat_vars := cat_vars w @ [cn @ ''-direction'']\<rparr>)"
proof -
  obtain d where d: "assign_directions (df w) pct (cn @ ''-direction'')
                (quantile_value (10 / 100) pct) (quantile_value (25 / 100) pct)
                (quantile_value (75 / 100) pct) (quantile_value (85 / 100) pct)
                (quantile_value (95 / 100) pct)
                (quantile_value nt (positive_rows pct))
                (quantile_value (1 - nt) (negative_rows pct)) = (None, d)"
    using assms(4) assign_directions_returns by blast
  then have "proc_add_direction w cn nt
               = (Inr d, w\<lparr>df := d, cat_vars := cat_vars w @ [cn @ ''-direction'']\<rparr>)"
    using assms(1-3) get_col_Inr_columns [OF assms(1)]
    by (simp add: proc_add_direction_def Let_def quantile_in_range)
  with d show ?thesis by blast
qed

lemma relabel_sky_up:
  "cell_gt x p95 \<Longrightarrow> relabel p10 p25 p75 p85 p95 mp mn x old = Some 7"
  by (simp add: relabel_def)

lemma relabel_zero:
  "cell_gt x mn \<Longrightarrow> cell_lt x mp \<Longrightarrow>
   \<not> (cell_gt x p75 \<and> cell_lt x p85) \<Longrightarrow> \<not> (cell_gt x p85 \<and> cell_lt x p95) \<Longrightarrow>
   \<not> cell_gt x p95 \<Longrightarrow> relabel p10 p25 p75 p85 p95 mp mn x old = Some 0"
  by (auto simp: relabel_def Let_def cell_gt_def cell_lt_def split: option.splits)

lemma relabel_skyfall:
  assumes "cell_lt x p10" "\<not> (cell_gt x mn \<and> cell_lt x mp)" "\<not> (cell_gt x mp \<and> cell_lt x p75)"
    and "\<not> cell_gt x p25" "\<not> cell_gt x p75" "\<not> cell_gt x p85" "\<not> cell_gt x p95"
  shows "relabel p10 p25 p75 p85 p95 mp mn x old = Some (- 7)"
  using assms by (auto simp: relabel_def Let_def cell_gt_def cell_lt_def split: option.splits)

lemma below_lowest_quantile:
  assumes "cell_lt x (quantile_value (10 / 100) s)" "10 / 100 \<le> q" "q \<le> 1"
  shows "\<not> cell_gt x (quantile_value q s)"
proof -
  obtain a b where x: "x = Some a" and p: "quantile_value (10 / 100) s = Some b" and ab: "a < b"
    using assms(1) by (auto simp: cell_lt_def split: option.splits)
  obtain c where "quantile_value q s = Some c" "b \<le> c"
    using quantile_value_mono [OF p _ assms(2,3)] by auto
  with x ab show ?thesis by (simp add: cell_gt_def cell_lt_def)
qed

text \<open>
  Claim C1, as the code has it. On a well-formed frame with at least one row that holds
  the percentage-change column, and for a noise threshold in \<open>(0, 1)\<close>, the call returns
  the frame with a direction column of the same length in which
  \<^item> every row strictly above the 95th percentile is labelled 7 (the last assignment);
  \<^item> every row strictly below the 10th percentile is labelled -7, unless the noise-band
    assignment or the UP assignment also selects it;
  \<^item> every row strictly inside the noise band is labelled 0, unless one of the three
    later assignments (MORE_UP, STRONG_UP, SKY_UP) also selects it.
  The assignments run in the written order and a later one overwrites an earlier one.
\<close>

theorem direction_labels:
  assumes "wf_table (df w)" and "get_col (df w) (column_name @ ''-pct'') = Inr pct"
    and "pct \<noteq> []" and "0 < nt" and "nt < 1"
    and "p10 = quantile_value (10 / 100) pct" and "p75 = quantile_value (75 / 100) pct"
    and "p85 = quantile_value (85 / 100) pct" and "p95 = quantile_value (95 / 100) pct"
    and "min_positive_pct = quantile_value nt (positive_rows pct)"
    and "min_negative_pct = quantile_value (1 - nt) (negative_rows pct)"
  shows "\<exists>d w' dir. proc_add_direction w column_name nt = (Inr d, w')
       \<and> get_col d (column_name @ ''-direction'') = Inr dir
       \<and> length dir = length pct
       \<and> (\<forall>i < length pct.
            (cell_gt (pct ! i) p95 \<longrightarrow> dir ! i = Some 7)
          \<and> (cell_lt (pct ! i) p10
              \<and> \<not> (cell_gt (pct ! i) min_negative_pct \<and> cell_lt (pct ! i) min_positive_pct)
              \<and> \<not> (cell_gt (pct ! i) min_positive_pct \<and> cell_lt (pct ! i) p75)
              \<longrightarrow> dir ! i = Some (- 7))
          \<and> (cell_gt (pct ! i) min_negative_pct \<and> cell_lt (pct ! i) min_positive_pct
              \<and> \<not> (cell_gt (pct ! i) p75 \<and> cell_lt (pct ! i) p85)
              \<and> \<not> (cell_gt (pct ! i) p85 \<and> cell_lt (pct ! i) p95)
              \<and> \<not> cell_gt (pct ! i) p95
              \<longrightarrow> dir ! i = Some 0))"
proof -
  define p25 where "p25 = quantile_value (25 / 100) pct"
  define old where "old = col_or_nan (df w) (column_name @ ''-direction'')"
  have "length pct = nrows (df w)"
    using assms(1,2) by (rule wf_table_column_length)
  moreover have "length pct \<noteq> 0"
    using assms(3) by simp
  ultimately have "nrows (df w) \<noteq> 0"
    by simp
  then obtain d where assigned: "assign_directions (df w) pct (column_name @ ''-direction'')
                p10 p25 p75 p85 p95 min_positive_pct min_negative_pct = (None, d)"
    and run: "proc_add_direction w column_name nt
      = (Inr d, w\<lparr>df := d, cat_vars := cat_vars w @ [column_name @ ''-direction'']\<rparr>)"
    using assms(4,5) proc_add_direction_present [OF assms(2), of nt]
    unfolding p25_def assms(6-11) by auto
  define dir where "dir = col_or_nan d (column_name @ ''-direction'')"
  have get: "get_col d (column_name @ ''-direction'') = Inr dir"
    unfolding dir_def using assigned by (rule get_col_assign_directions_same)
  have len_old: "length old = length pct"
    using assms(1,2) by (simp add: old_def wf_table_col_or_nan_length wf_table_column_length)
  have dir_eq: "dir = map (\<lambda>(x, old). relabel p10 p25 p75 p85 p95 min_positive_pct
                        min_negative_pct x old) (zip pct old)"
    unfolding dir_def old_def using assigned by (rule col_or_nan_assign_directions)
  have len: "length dir = length pct"
    using len_old by (simp add: dir_eq)
  have rows: "(cell_gt (pct ! i) p95 \<longrightarrow> dir ! i = Some 7)
          \<and> (cell_lt (pct ! i) p10
              \<and> \<not> (cell_gt (pct ! i) min_negative_pct \<and> cell_lt (pct ! i) min_positive_pct)
              \<and> \<not> (cell_gt (pct ! i) min_positive_pct \<and> cell_lt (pct ! i) p75)
              \<longrightarrow> dir ! i = Some (- 7))
          \<and> (cell_gt (pct ! i) min_negative_pct \<and> cell_lt (pct ! i) min_positive_pct
              \<and> \<not> (cell_gt (pct ! i) p75 \<and> cell_lt (pct ! i) p85)
              \<and> \<not> (cell_gt (pct ! i) p85 \<and> cell_lt (pct ! i) p95)
              \<and> \<not> cell_gt (pct ! i) p95
              \<longrightarrow> dir ! i = Some 0)" if i: "i < length pct" for i
  proof -
    have nth: "dir ! i = relabel p10 p25 p75 p85 p95 min_positive_pct min_negative_pct
                 (pct ! i) (old ! i)"
      using i len_old by (simp add: dir_eq)
    have low: "\<not> cell_gt (pct ! i) p25 \<and> \<not> cell_gt (pct ! i) p75
        \<and> \<not> cell_gt (pct ! i) p85 \<and> \<not> cell_gt (pct ! i) p95"
      if "cell_lt (pct ! i) p10"
      using that below_lowest_quantile [of "pct ! i" pct]
      by (simp add: assms(6-9) p25_def)
    show ?thesis
      using low by (auto simp: nth relabel_sky_up relabel_zero relabel_skyfall)
  qed
  show ?thesis
    using run get len rows by blast
qed

lemma crossing_quantiles:
  "quantile_value (10 / 100) crossing_pct = Some (- 1 / 5)"
  "quantile_value (25 / 100) crossing_pct = Some 1"
  "quantile_value (75 / 100) crossing_pct = Some 3"
  "quantile_value (85 / 100) crossing_pct = Some (17 / 5)"
  "quantile_value (95 / 100) crossing_pct = Some (19 / 5)"
  "quantile_value (7 / 100) (positive_rows crossing_pct) = Some (121 / 100)"
  "quantile_value (1 - 7 / 100) (negative_rows crossing_pct) = Some (- 1)"
  by code_simp+

lemma crossing_frame:
  "wf_table (df crossing)" "get_col (df crossing) (''Close'' @ ''-pct'') = Inr crossing_pct"
  "crossing_pct \<noteq> []"
  by (simp_all add: crossing_def wf_table_def columns_def nrows_def get_col_def crossing_pct_def)

theorem direction_labels_witness:
  "wf_table (df crossing) \<and> get_col (df crossing) ''Close-pct'' = Inr crossing_pct
   \<and> crossing_pct \<noteq> []
   \<and> cell_gt (crossing_pct ! 4) (quantile_value (95 / 100) crossing_pct)
   \<and> cell_lt (crossing_pct ! 0) (quantile_value (10 / 100) crossing_pct)
   \<and> cell_gt (crossing_pct ! 1) (quantile_value (1 - 7 / 100) (negative_rows crossing_pct))
   \<and> cell_lt (crossing_pct ! 1) (quantile_value (7 / 100) (positive_rows crossing_pct))
   \<and> (\<exists>d w' dir. proc_add_direction crossing ''Close'' (7 / 100) = (Inr d, w')
         \<and> get_col d ''Close-direction'' = Inr dir
         \<and> dir ! 4 = Some 7 \<and> dir ! 0 = Some (- 7) \<and> dir ! 1 = Some 0)"
proof -
  have "(0::real) < 7 / 100" "(7::real) / 100 < 1"
    by simp_all
  from direction_labels [where nt = "7 / 100", OF crossing_frame this
      crossing_quantiles(1) [symmetric] crossing_quantiles(3) [symmetric]
      crossing_quantiles(4) [symmetric] crossing_quantiles(5) [symmetric]
      crossing_quantiles(6) [symmetric] crossing_quantiles(7) [symmetric]]
  obtain d w' dir where r: "proc_add_direction crossing ''Close'' (7 / 100) = (Inr d, w')"
      "get_col d (''Close'' @ ''-direction'') = Inr dir"
    and rows: "\<And>i. i < length crossing_pct \<Longrightarrow>
            (cell_gt (crossing_pct ! i) (Some (19 / 5)) \<longrightarrow> dir ! i = Some 7)
          \<and> (cell_lt (crossing_pct ! i) (Some (- 1 / 5))
              \<and> \<not> (cell_gt (crossing_pct ! i) (Some (- 1))
                    \<and> cell_lt (crossing_pct ! i) (Some (121 / 100)))
              \<and> \<not> (cell_gt (crossing_pct ! i) (Some (121 / 100))
                    \<and> cell_lt (crossing_pct ! i) (Some 3))
              \<longrightarrow> dir ! i = Some (- 7))
          \<and> (cell_gt (crossing_pct ! i) (Some (- 1))
              \<and> cell_lt (crossing_pct ! i) (Some (121 / 100))
              \<and> \<not> (cell_gt (crossing_pct ! i) (Some 3)
                    \<and> cell_lt (crossing_pct ! i) (Some (17 / 5)))
              \<and> \<not> (cell_gt (crossing_pct ! i) (Some (17 / 5))
                    \<and> cell_lt (crossing_pct ! i) (Some (19 / 5)))
              \<and> \<not> cell_gt (crossing_pct ! i) (Some (19 / 5))
              \<longrightarrow> dir ! i = Some 0)"
    by blast
  have "dir ! 4 = Some 7"
    using rows [of 4] by (simp add: crossing_pct_def cell_gt_def cell_lt_def)
  moreover have "dir ! 0 = Some (- 7)"
    using rows [of 0] by (simp add: crossing_pct_def cell_gt_def cell_lt_def)
  moreover have "dir ! 1 = Some 0"
    using rows [of 1] by (simp add: crossing_pct_def cell_gt_def cell_lt_def)
  moreover have "cell_gt (crossing_pct ! 4) (quantile_value (95 / 100) crossing_pct)"
      "cell_lt (crossing_pct ! 0) (quantile_value (10 / 100) crossing_pct)"
      "cell_gt (crossing_pct ! 1) (quantile_value (1 - 7 / 100) (negative_rows crossing_pct))"
      "cell_lt (crossing_pct ! 1) (quantile_value (7 / 100) (positive_rows crossing_pct))"
    by (simp_all only: crossing_quantiles) (simp_all add: crossing_pct_def cell_gt_def cell_lt_def)
  ultimately show ?thesis
    using r crossing_frame by simp
qed

lemma skewed_up_run:
  "fst (proc_add_direction skewed_up ''Close'' (7 / 100))
     = Inr [(''Close-pct'', skewed_up_pct),
            (''Close-direction'', [Some (- 7), Some 0, Some 1, Some 1, Some 1, Some 1, Some 1,
                                   Some 1, Some 1, Some 3, Some 5, Some 7])]"
  by code_simp

lemma skewed_down_run:
  "fst (proc_add_direction skewed_down ''Close'' (7 / 100))
     = Inr [(''Close-pct'', skewed_down_pct),
            (''Close-direction'', [Some (- 7), Some (- 7), Some (- 3), Some (- 1), Some (- 1),
                                   Some (- 1), Some (- 1), Some (- 1), Some (- 1), Some 3,
                                   Some 5, Some 7])]"
  by code_simp

lemma skewed_quantiles:
  "quantile_value (10 / 100) skewed_up_pct = Some (11 / 10)"
  "quantile_value (7 / 100) (positive_rows skewed_down_pct) = Some 1"
  "quantile_value (1 - 7 / 100) (negative_rows skewed_down_pct) = Some (- 17 / 10)"
  by code_simp+

text \<open>
  Claim C1, as stated, fails. In \<open>skewed_up\<close> row 1 (value 1) is strictly below the 10th
  percentile (11/10), lies in the noise band, and ends labelled 0. In \<open>skewed_down\<close> row
  10 (value -1) is strictly inside the noise band (-17/10, 1), lies between the 85th and
  the 95th percentile, and ends labelled 5. And on \<open>no_rows\<close>, a well-formed frame that
  holds the percentage-change column but no row, the call returns no frame: the first
  assignment raises ValueError.
\<close>

theorem direction_extremes_overwritten:
  "get_col (df skewed_up) ''Close-pct'' = Inr skewed_up_pct
   \<and> cell_lt (skewed_up_pct ! 1) (quantile_value (10 / 100) skewed_up_pct)
   \<and> fst (proc_add_direction skewed_up ''Close'' (7 / 100))
       = Inr [(''Close-pct'', skewed_up_pct),
              (''Close-direction'', [Some (- 7), Some 0, Some 1, Some 1, Some 1, Some 1, Some 1,
                                     Some 1, Some 1, Some 3, Some 5, Some 7])]
   \<and> get_col (df skewed_down) ''Close-pct'' = Inr skewed_down_pct
   \<and> cell_gt (skewed_down_pct ! 10) (quantile_value (1 - 7 / 100) (negative_rows skewed_down_pct))
   \<and> cell_lt (skewed_down_pct ! 10) (quantile_value (7 / 100) (positive_rows skewed_down_pct))
   \<and> fst (proc_add_direction skewed_down ''Close'' (7 / 100))
       = Inr [(''Close-pct'', skewed_down_pct),
              (''Close-direction'', [Some (- 7), Some (- 7), Some (- 3), Some (- 1), Some (- 1),
                                     Some (- 1), Some (- 1), Some (- 1), Some (- 1), Some 3,
                                     Some 5, Some 7])]
   \<and> wf_table (df no_rows) \<and> get_col (df no_rows) ''Close-pct'' = Inr []
   \<and> proc_add_direction no_rows ''Close'' (7 / 100) = (Inl ValueError, no_rows)"
proof -
  have "wf_table (df no_rows)" "get_col (df no_rows) ''Close-pct'' = Inr []"
    "proc_add_direction no_rows ''Close'' (7 / 100) = (Inl ValueError, no_rows)"
    by (simp_all add: no_rows_def columns_def wf_table_def nrows_def get_col_def
        proc_add_direction_def Let_def quantile_def assign_directions_runs)
  moreover
  have "get_col (df skewed_up) ''Close-pct'' = Inr skewed_up_pct"
    "get_col (df skewed_down) ''Close-pct'' = Inr skewed_down_pct"
    by (simp_all add: skewed_up_def skewed_down_def get_col_def)
  moreover have "cell_lt (skewed_up_pct ! 1) (quantile_value (10 / 100) skewed_up_pct)"
    "cell_gt (skewed_down_pct ! 10) (quantile_value (1 - 7 / 100) (negative_rows skewed_down_pct))"
    "cell_lt (skewed_down_pct ! 10) (quantile_value (7 / 100) (positive_rows skewed_down_pct))"
    by (simp_all only: skewed_quantiles)
      (simp_all add: skewed_up_pct_def skewed_down_pct_def cell_gt_def cell_lt_def)
  ultimately show ?thesis
    by (simp only: skewed_up_run skewed_down_run simp_thms)
qed

lemma crossing_run:
  "proc_add_direction crossing ''Close'' (7 / 100)
     = (Inr [(''Close-pct'', crossing_pct),
             (''Close-direction'', [Some (- 7), Some 0, Some 1, None, Some 7])],
        \<lparr>df = [(''Close-pct'', crossing_pct),
               (''Close-direction'', [Some (- 7), Some 0, Some 1, None, Some 7])],
         cont_vars = [''Close-pct''], cat_vars = [''Close-direction'']\<rparr>)"
  by code_simp

text \<open>
  Claim C9. There are a frame, a noise threshold in \<open>(0, 1)\<close> and a row holding a number
  that none of the eight strict comparisons selects, whose direction cell is still
  missing after the call. In the instance the lower noise threshold lies below the 25th
  percentile, and the row's value is the 75th percentile itself.
\<close>

theorem direction_leaves_row_unlabelled:
  "\<exists>w column_name nt pct i v.
      0 < nt \<and> nt < 1 \<and> get_col (df w) (column_name @ ''-pct'') = Inr pct
    \<and> i < length pct \<and> pct ! i = Some v
    \<and> (let p10 = quantile_value (10 / 100) pct; p25 = quantile_value (25 / 100) pct;
            p75 = quantile_value (75 / 100) pct; p85 = quantile_value (85 / 100) pct;
            p95 = quantile_value (95 / 100) pct;
            min_positive_pct = quantile_value nt (positive_rows pct);
            min_negative_pct = quantile_value (1 - nt) (negative_rows pct)
        in cell_lt min_negative_pct p25
         \<and> \<not> cell_lt (Some v) p10
         \<and> \<not> (cell_lt (Some v) p25 \<and> cell_gt (Some v) p10)
         \<and> \<not> (cell_lt (Some v) min_negative_pct \<and> cell_gt (Some v) p25)
         \<and> \<not> (cell_gt (Some v) min_negative_pct \<and> cell_lt (Some v) min_positive_pct)
         \<and> \<not> (cell_gt (Some v) min_positive_pct \<and> cell_lt (Some v) p75)
         \<and> \<not> (cell_gt (Some v) p75 \<and> cell_lt (Some v) p85)
         \<and> \<not> (cell_gt (Some v) p85 \<and> cell_lt (Some v) p95)
         \<and> \<not> cell_gt (Some v) p95)
    \<and> (\<exists>d w' dir. proc_add_direction w column_name nt = (Inr d, w')
          \<and> get_col d (column_name @ ''-direction'') = Inr dir
          \<and> length dir = length pct \<and> dir ! i = None)"
proof -
  have frame: "get_col (df crossing) (''Close'' @ ''-pct'') = Inr crossing_pct"
    "3 < length crossing_pct" "crossing_pct ! 3 = Some 3"
    by (rule crossing_frame(2)) (simp_all add: crossing_pct_def)
  have gaps: "(let p10 = quantile_value (10 / 100) crossing_pct;
            p25 = quantile_value (25 / 100) crossing_pct;
            p75 = quantile_value (75 / 100) crossing_pct;
            p85 = quantile_value (85 / 100) crossing_pct;
            p95 = quantile_value (95 / 100) crossing_pct;
            min_positive_pct = quantile_value (7 / 100) (positive_rows crossing_pct);
            min_negative_pct = quantile_value (1 - 7 / 100) (negative_rows crossing_pct)
        in cell_lt min_negative_pct p25
         \<and> \<not> cell_lt (Some 3) p10
         \<and> \<not> (cell_lt (Some 3) p25 \<and> cell_gt (Some 3) p10)
         \<and> \<not> (cell_lt (Some 3) min_negative_pct \<and> cell_gt (Some 3) p25)
         \<and> \<not> (cell_gt (Some 3) min_negative_pct \<and> cell_lt (Some 3) min_positive_pct)
         \<and> \<not> (cell_gt (Some 3) min_positive_pct \<and> cell_lt (Some 3) p75)
         \<and> \<not> (cell_gt (Some 3) p75 \<and> cell_lt (Some 3) p85)
         \<and> \<not> (cell_gt (Some 3) p85 \<and> cell_lt (Some 3) p95)
         \<and> \<not> cell_gt (Some 3) p95)"
    by (simp only: crossing_quantiles Let_def) (simp add: cell_lt_def cell_gt_def)
  have run: "\<exists>d w' dir. proc_add_direction crossing ''Close'' (7 / 100) = (Inr d, w')
          \<and> get_col d (''Close'' @ ''-direction'') = Inr dir
          \<and> length dir = length crossing_pct \<and> dir ! 3 = None"
    by (simp only: crossing_run) (simp add: get_col_def crossing_pct_def)
  have "(0::real) < 7 / 100 \<and> (7::real) / 100 < 1"
    by simp
  then show ?thesis
    using frame gaps run
    by (intro exI [of _ crossing] exI [of _ "''Close''"] exI [of _ "7 / 100"]
          exI [of _ crossing_pct] exI [of _ 3] exI [of _ 3]) blast
qed

section \<open>Min-max normalisation\<close>

lemma dropna_fillna0:
  "dropna (fillna0 c) = map (\<lambda>x. case x of None \<Rightarrow> 0 | Some v \<Rightarrow> v) c"
  by (induction c) (auto simp: dropna_def fillna0_def List.map_filter_def split: option.splits)

lemma dropna_member: "i < length s \<Longrightarrow> s ! i = Some v \<Longrightarrow> v \<in> set (dropna s)"
  by (force simp: dropna_def List.map_filter_def in_set_conv_nth)

lemma dropna_source: "v \<in> set (dropna s) \<Longrightarrow> \<exists>i < length s. s ! i = Some v"
  by (auto simp: dropna_def List.map_filter_def in_set_conv_nth)

lemma col_min_eq:
  "dropna s \<noteq> [] \<Longrightarrow> col_min s = Some (Min (set (dropna s)))"
  by (cases "dropna s") (simp_all add: col_min_def Min.set_eq_fold [symmetric])

lemma col_max_eq:
  "dropna s \<noteq> [] \<Longrightarrow> col_max s = Some (Max (set (dropna s)))"
  by (cases "dropna s") (simp_all add: col_max_def Max.set_eq_fold [symmetric])

lemma fillna0_nth_Some: "i < length c \<Longrightarrow> \<exists>v. fillna0 c ! i = Some v"
  by (simp add: fillna0_def split: option.splits)

lemma length_fillna0: "length (fillna0 c) = length c"
  by (simp add: fillna0_def)

text \<open>The scaled value of a row that holds the column's minimum, and of one that holds
  its maximum, when the column is not constant.\<close>

lemma scaled_extremes:
  assumes i: "i < length f" and v: "f ! i = Some v"
    and other: "j < length f" "f ! j = Some u" "u \<noteq> v"
  shows "(\<forall>k < length f. \<forall>x. f ! k = Some x \<longrightarrow> v \<le> x) \<Longrightarrow>
           cell_mul (cell_div (cell_sub (f ! i) (col_min f)) (cell_sub (col_max f) (col_min f)))
             (Some (of_int 100)) = Some 0"
    and "(\<forall>k < length f. \<forall>x. f ! k = Some x \<longrightarrow> x \<le> v) \<Longrightarrow>
           cell_mul (cell_div (cell_sub (f ! i) (col_min f)) (cell_sub (col_max f) (col_min f)))
             (Some (of_int 100)) = Some 100"
proof -
  let ?S = "set (dropna f)"
  have vin: "v \<in> ?S" and uin: "u \<in> ?S"
    using i v other by (auto intro: dropna_member)
  then have ne: "dropna f \<noteq> []" by auto
  have fin: "finite ?S" by simp
  have mn: "col_min f = Some (Min ?S)" and mx: "col_max f = Some (Max ?S)"
    using ne by (simp_all add: col_min_eq col_max_eq)
  have range: "Min ?S \<le> v" "v \<le> Max ?S" "Min ?S \<le> u" "u \<le> Max ?S"
    using vin uin by simp_all
  then have spread: "Min ?S < Max ?S"
    using other(3) by linarith
  {
    assume "\<forall>k < length f. \<forall>x. f ! k = Some x \<longrightarrow> v \<le> x"
    then have "\<forall>x \<in> ?S. v \<le> x" using dropna_source by metis
    then have "Min ?S = v" using vin by (intro Min_eqI) simp_all
    then show "cell_mul (cell_div (cell_sub (f ! i) (col_min f)) (cell_sub (col_max f) (col_min f)))
             (Some (of_int 100)) = Some 0"
      using spread by (simp add: v mn mx cell_mul_def cell_div_def cell_sub_def cell_lift2_def)
  }
  {
    assume "\<forall>k < length f. \<forall>x. f ! k = Some x \<longrightarrow> x \<le> v"
    then have "\<forall>x \<in> ?S. x \<le> v" using dropna_source by metis
    then have "Max ?S = v" using vin by (intro Max_eqI) simp_all
    then show "cell_mul (cell_div (cell_sub (f ! i) (col_min f)) (cell_sub (col_max f) (col_min f)))
             (Some (of_int 100)) = Some 100"
      using spread by (simp add: v mn mx cell_mul_def cell_div_def cell_sub_def cell_lift2_def)
  }
qed

lemma map_of_fillna: "map_of (fillna t) n = map_option fillna0 (map_of t n)"
  by (induction t) (auto simp: fillna_def)

lemma columns_fillna: "columns (fillna t) = columns t"
  by (induction t) (auto simp: fillna_def columns_def)

lemma map_of_min_max_scale:
  "map_of (min_max_scale t k) n
     = map_option (\<lambda>c. map (\<lambda>x. cell_mul (cell_div (cell_sub x (col_min c))
                                              (cell_sub (col_max c) (col_min c)))
                                    (Some (of_int k))) c) (map_of t n)"
  by (induction t) (auto simp: min_max_scale_def)

lemma columns_min_max_scale: "columns (min_max_scale t k) = columns t"
  by (induction t) (auto simp: min_max_scale_def columns_def)

lemma map_of_filter_other:
  "n \<noteq> x \<Longrightarrow> map_of (filter (\<lambda>(m, c). m \<noteq> x) t) n = map_of t n"
  by (induction t) auto

lemma columns_filter_other:
  "columns (filter (\<lambda>(m, c). m \<noteq> x) t) = filter (\<lambda>m. m \<noteq> x) (columns t)"
  by (induction t) (auto simp: columns_def)

lemma proc_min_max_normalize_Date:
  assumes "get_col d ''Date'' = Inr dates"
  shows "proc_min_max_normalize d k False [''Date'']
     = Inr ((''Date'', fillna0 dates)
            # min_max_scale (filter (\<lambda>(m, c). m \<noteq> ''Date'') (fillna d)) k)"
proof -
  have "map_of d ''Date'' = Some dates"
    using assms by (auto simp: get_col_def split: option.splits)
  moreover have "''Date'' \<in> set (columns d)"
    using assms by (rule get_col_Inr_columns)
  ultimately show ?thesis
    by (simp add: proc_min_max_normalize_def proc_fill_nan_def Let_def get_col_def
        map_of_fillna drop_cols_def columns_fillna)
qed

lemma fillna0_id: "list_all (\<lambda>x. x \<noteq> None) c \<Longrightarrow> fillna0 c = c"
  by (induction c) (auto simp: fillna0_def)

text \<open>
  Claim C5, as the code has it. For every frame with distinct column names that has a
  \<^verbatim>\<open>"Date"\<close> column, \<^verbatim>\<open>proc_min_max_normalize(df, 100, False, ["Date"])\<close> returns a frame
  whose first column is \<^verbatim>\<open>"Date"\<close>, followed by the other columns in their order. The
  \<^verbatim>\<open>"Date"\<close> column holds the dates after the NaN-to-zero fill, so it is unchanged
  when no date is missing. In every other column that is not constant after the fill, a
  row holding the column's minimum becomes 0 and a row holding its maximum becomes 100.
\<close>

theorem min_max_normalize_excluding_Date:
  assumes "distinct (columns d)" and "get_col d ''Date'' = Inr dates"
  shows "\<exists>r. proc_min_max_normalize d 100 False [''Date''] = Inr r
       \<and> columns r = ''Date'' # filter (\<lambda>m. m \<noteq> ''Date'') (columns d)
       \<and> get_col r ''Date'' = Inr (fillna0 dates)
       \<and> (list_all (\<lambda>x. x \<noteq> None) dates \<longrightarrow> get_col r ''Date'' = Inr dates)
       \<and> (\<forall>n c. (n, c) \<in> set d \<and> n \<noteq> ''Date'' \<longrightarrow>
            (\<exists>c'. get_col r n = Inr c' \<and> length c' = length c
               \<and> (\<forall>i < length c. \<forall>v.
                     fillna0 c ! i = Some v \<and> (\<exists>j < length c. fillna0 c ! j \<noteq> Some v) \<longrightarrow>
                     ((\<forall>k < length c. \<forall>x. fillna0 c ! k = Some x \<longrightarrow> v \<le> x)
                        \<longrightarrow> c' ! i = Some 0)
                   \<and> ((\<forall>k < length c. \<forall>x. fillna0 c ! k = Some x \<longrightarrow> x \<le> v)
                        \<longrightarrow> c' ! i = Some 100))))"
proof -
  define scale where "scale = (\<lambda>c. map (\<lambda>x. cell_mul (cell_div (cell_sub x (col_min c))
                                              (cell_sub (col_max c) (col_min c)))
                                    (Some (of_int 100))) c)"
  define r where "r = (''Date'', fillna0 dates)
            # min_max_scale (filter (\<lambda>(m, c). m \<noteq> ''Date'') (fillna d)) 100"
  have run: "proc_min_max_normalize d 100 False [''Date''] = Inr r"
    unfolding r_def using assms(2) by (rule proc_min_max_normalize_Date)
  have cols: "columns r = ''Date'' # filter (\<lambda>m. m \<noteq> ''Date'') (columns d)"
    using columns_min_max_scale [of "filter (\<lambda>(m, c). m \<noteq> ''Date'') (fillna d)" 100]
    by (simp add: columns_filter_other columns_fillna) (simp add: r_def columns_def)
  have date: "get_col r ''Date'' = Inr (fillna0 dates)"
    by (simp add: r_def get_col_def)
  have col: "\<exists>c'. get_col r n = Inr c' \<and> length c' = length c
               \<and> (\<forall>i < length c. \<forall>v.
                     fillna0 c ! i = Some v \<and> (\<exists>j < length c. fillna0 c ! j \<noteq> Some v) \<longrightarrow>
                     ((\<forall>k < length c. \<forall>x. fillna0 c ! k = Some x \<longrightarrow> v \<le> x)
                        \<longrightarrow> c' ! i = Some 0)
                   \<and> ((\<forall>k < length c. \<forall>x. fillna0 c ! k = Some x \<longrightarrow> x \<le> v)
                        \<longrightarrow> c' ! i = Some 100))"
    if nc: "(n, c) \<in> set d" "n \<noteq> ''Date''" for n c
  proof -
    let ?f = "fillna0 c"
    have "map_of d n = Some c"
      using assms(1) nc(1) by (simp add: columns_def)
    then have get: "get_col r n = Inr (scale ?f)"
      using nc(2)
      by (simp add: r_def get_col_def map_of_min_max_scale map_of_filter_other map_of_fillna
          scale_def)
    have len: "length (scale ?f) = length c"
      by (simp add: scale_def length_fillna0)
    have rows: "((\<forall>k < length c. \<forall>x. ?f ! k = Some x \<longrightarrow> v \<le> x) \<longrightarrow> scale ?f ! i = Some 0)
              \<and> ((\<forall>k < length c. \<forall>x. ?f ! k = Some x \<longrightarrow> x \<le> v) \<longrightarrow> scale ?f ! i = Some 100)"
      if i: "i < length c" and v: "?f ! i = Some v" and j: "j < length c" "?f ! j \<noteq> Some v"
      for i v j
    proof -
      obtain u where u: "?f ! j = Some u" "u \<noteq> v"
        using j fillna0_nth_Some [of j c] by auto
      have nth: "scale ?f ! i
          = cell_mul (cell_div (cell_sub (?f ! i) (col_min ?f)) (cell_sub (col_max ?f) (col_min ?f)))
              (Some (of_int 100))"
        using i by (simp add: scale_def length_fillna0)
      show ?thesis
        using scaled_extremes [of i ?f v j u] i v j(1) u
        by (simp add: nth length_fillna0)
    qed
    show ?thesis
      using get len rows by blast
  qed
  show ?thesis
    using run cols date col by (auto simp: fillna0_id)
qed


theorem min_max_normalize_excluding_Date_witness:
  "distinct (columns gappy) \<and> get_col gappy ''Date'' = Inr [Some 1, Some 2, Some 3]
   \<and> (\<exists>r. proc_min_max_normalize gappy 100 False [''Date''] = Inr r
         \<and> columns r = [''Date'', ''Close'']
         \<and> get_col r ''Date'' = Inr [Some 1, Some 2, Some 3]
         \<and> (\<exists>c'. get_col r ''Close'' = Inr c' \<and> length c' = 3
               \<and> c' ! 1 = Some 0 \<and> c' ! 2 = Some 100))"
proof -
  have a: "distinct (columns gappy)"
    by (simp add: gappy_def columns_def)
  have b: "get_col gappy ''Date'' = Inr [Some 1, Some 2, Some 3]"
    by (simp add: gappy_def get_col_def)
  have f: "fillna0 [Some 11, None, Some 13] = [Some 11, Some 0, Some 13]"
    by (simp add: fillna0_def)
  have m: "(''Close'', [Some 11, None, Some 13]) \<in> set gappy \<and> ''Close'' \<noteq> ''Date''"
    by (simp add: gappy_def)
  from min_max_normalize_excluding_Date [OF a b]
  obtain r where r: "proc_min_max_normalize gappy 100 False [''Date''] = Inr r"
      "columns r = ''Date'' # filter (\<lambda>m. m \<noteq> ''Date'') (columns gappy)"
      "get_col r ''Date'' = Inr (fillna0 [Some 1, Some 2, Some 3])"
    and cols: "\<forall>n c. (n, c) \<in> set gappy \<and> n \<noteq> ''Date'' \<longrightarrow>
            (\<exists>c'. get_col r n = Inr c' \<and> length c' = length c
               \<and> (\<forall>i < length c. \<forall>v.
                     fillna0 c ! i = Some v \<and> (\<exists>j < length c. fillna0 c ! j \<noteq> Some v) \<longrightarrow>
                     ((\<forall>k < length c. \<forall>x. fillna0 c ! k = Some x \<longrightarrow> v \<le> x)
                        \<longrightarrow> c' ! i = Some 0)
                   \<and> ((\<forall>k < length c. \<forall>x. fillna0 c ! k = Some x \<longrightarrow> x \<le> v)
                        \<longrightarrow> c' ! i = Some 100)))"
    by (elim exE conjE) (rule that)
  from cols [rule_format, OF m]
  obtain c' where c': "get_col r ''Close'' = Inr c'" "length c' = length [Some 11, None, Some (13::real)]"
    and rows: "\<forall>i < length [Some 11, None, Some (13::real)]. \<forall>v.
                     fillna0 [Some 11, None, Some 13] ! i = Some v
                      \<and> (\<exists>j < length [Some 11, None, Some (13::real)].
                             fillna0 [Some 11, None, Some 13] ! j \<noteq> Some v) \<longrightarrow>
                     ((\<forall>k < length [Some 11, None, Some (13::real)]. \<forall>x.
                          fillna0 [Some 11, None, Some 13] ! k = Some x \<longrightarrow> v \<le> x)
                        \<longrightarrow> c' ! i = Some 0)
                   \<and> ((\<forall>k < length [Some 11, None, Some (13::real)]. \<forall>x.
                          fillna0 [Some 11, None, Some 13] ! k = Some x \<longrightarrow> x \<le> v)
                        \<longrightarrow> c' ! i = Some 100)"
    by (elim exE conjE) (rule that)
  have all3: "(\<forall>k < Suc (Suc (Suc 0)). P k) = (P 0 \<and> P (Suc 0) \<and> P (Suc (Suc 0)))" for P
    by (auto simp: less_Suc_eq)
  have ex3: "(\<exists>k < Suc (Suc (Suc 0)). P k) = (P 0 \<or> P (Suc 0) \<or> P (Suc (Suc 0)))" for P
    by (auto simp: less_Suc_eq)
  have "c' ! 1 = Some 0"
    using rows [rule_format, of 1 0] by (simp add: f all3 ex3)
  moreover have "c' ! 2 = Some 100"
    using rows [rule_format, of 2 13] by (simp add: f all3 ex3)
  ultimately show ?thesis
    using a b r c' by (simp add: gappy_def columns_def fillna0_def)
qed

text \<open>
  Claim C5, as stated, fails: the fill comes before the exclusion, so a missing date is
  replaced by 0 in the returned \<^verbatim>\<open>"Date"\<close> column.
\<close>

theorem min_max_normalize_fills_Date:
  "get_col undated ''Date'' = Inr [None, Some 2]
   \<and> proc_min_max_normalize undated 100 False [''Date'']
       = Inr [(''Date'', [Some 0, Some 2]), (''Close'', [Some 0, Some 100])]"
  by (simp add: undated_def get_col_def proc_min_max_normalize_def proc_fill_nan_def fillna_def
      fillna0_def drop_cols_def columns_def min_max_scale_def col_min_def col_max_def dropna_def
      List.map_filter_def cell_mul_def cell_div_def cell_sub_def cell_lift2_def)

section \<open>The discarded fill\<close>

lemma fillna_changes_nan:
  assumes "get_col r n = Inr c" "i < length c" "c ! i = None"
  shows "fillna r \<noteq> r"
proof
  assume "fillna r = r"
  then have "map_of (fillna r) n = map_of r n" by simp
  moreover have "map_of r n = Some c"
    using assms(1) by (auto simp: get_col_def split: option.splits)
  ultimately have "fillna0 c = c" by (simp add: map_of_fillna)
  then have "fillna0 c ! i = None" using assms(3) by simp
  then show False using assms(2) by (simp add: fillna0_def split: option.splits)
qed

lemma change_column_nan:
  assumes "r = set_col m n (pct_change c)"
  shows "\<exists>pc. get_col r n = Inr pc \<and> (pc \<noteq> [] \<longrightarrow> pc ! 0 = None \<and> fillna r \<noteq> r)"
proof -
  have get: "get_col r n = Inr (pct_change c)"
    by (simp add: assms get_col_set_col)
  have "pct_change c ! 0 = None \<and> fillna r \<noteq> r" if "pct_change c \<noteq> []"
  proof -
    have "c \<noteq> []" using that length_pct_change [of c] by auto
    then have first: "pct_change c ! 0 = None" by (rule pct_change_first)
    moreover have "fillna r \<noteq> r"
      using get _ first by (rule fillna_changes_nan) (use that in simp)
    ultimately show ?thesis by simp
  qed
  with get show ?thesis by blast
qed

lemma proc_add_adx_change_nan:
  assumes "proc_add_adx fetch w stock True = (Inr r, w')"
  shows "\<exists>pc. get_col r ''ADX_CHANGE'' = Inr pc \<and> (pc \<noteq> [] \<longrightarrow> pc ! 0 = None \<and> fillna r \<noteq> r)"
proof -
  obtain m c where "r = set_col m ''ADX_CHANGE'' (pct_change c)"
    using assms by (auto simp: proc_add_adx_def Let_def split: sum.splits)
  then show ?thesis by (rule change_column_nan)
qed

lemma proc_add_obv_change_nan:
  assumes "proc_add_obv fetch w stock True = (Inr r, w')"
  shows "\<exists>pc. get_col r ''OBV_CHANGE'' = Inr pc \<and> (pc \<noteq> [] \<longrightarrow> pc ! 0 = None \<and> fillna r \<noteq> r)"
proof -
  obtain m c where "r = set_col m ''OBV_CHANGE'' (pct_change c)"
    using assms by (auto simp: proc_add_obv_def Let_def split: sum.splits)
  then show ?thesis by (rule change_column_nan)
qed

lemma proc_add_mom_change_nan:
  assumes "proc_add_mom fetch w stock True = (Inr r, w')"
  shows "\<exists>pc. get_col r ''MOM-pct'' = Inr pc \<and> (pc \<noteq> [] \<longrightarrow> pc ! 0 = None \<and> fillna r \<noteq> r)"
proof -
  obtain m c where "r = set_col m ''MOM-pct'' (pct_change c)"
    using assms by (auto simp: proc_add_mom_def Let_def split: sum.splits)
  then show ?thesis by (rule change_column_nan)
qed

lemma proc_add_rsi_change_nan:
  assumes "proc_add_rsi fetch w stock True = (Inr r, w')"
  shows "\<exists>pc. get_col r ''RSI_CHANGE'' = Inr pc \<and> (pc \<noteq> [] \<longrightarrow> pc ! 0 = None \<and> fillna r \<noteq> r)"
proof -
  obtain m c where "r = set_col m ''RSI_CHANGE'' (pct_change c)"
    using assms by (auto simp: proc_add_rsi_def Let_def split: sum.splits)
  then show ?thesis by (rule change_column_nan)
qed

section \<open>Columns of a merge\<close>

lemma unsuffixedD: "unsuffixed n \<Longrightarrow> n \<noteq> m @ ''_x'' \<and> n \<noteq> m @ ''_y''"
  by (auto simp: unsuffixed_def)

lemma unsuffixed_last:
  assumes "last n \<noteq> CHR ''x''" "last n \<noteq> CHR ''y''"
  shows "unsuffixed n"
  unfolding unsuffixed_def
proof (intro conjI notI)
  assume "drop (length n - 2) n = ''_x''"
  then have "last (drop (length n - 2) n) = CHR ''x''" "length n - 2 < length n"
    by (simp, cases n) auto
  then have "last n = CHR ''x''" by (simp add: last_drop)
  with assms show False by simp
next
  assume "drop (length n - 2) n = ''_y''"
  then have "last (drop (length n - 2) n) = CHR ''y''" "length n - 2 < length n"
    by (simp, cases n) auto
  then have "last n = CHR ''y''" by (simp add: last_drop)
  with assms show False by simp
qed

lemma map_of_left_columns:
  assumes "unsuffixed n"
  shows "map_of (map (\<lambda>(m, c). (if m \<noteq> key \<and> m \<in> R then m @ ''_x'' else m, f c)) l) n
           = (if n \<noteq> key \<and> n \<in> R then None else map_option f (map_of l n))"
  using assms
proof (induction l)
  case Nil
  then show ?case by simp
next
  case (Cons a l)
  obtain m c where a: "a = (m, c)" by (cases a)
  have "n \<noteq> m @ ''_x''" using Cons.prems by (simp add: unsuffixedD)
  then show ?case using Cons by (auto simp: a)
qed

lemma map_of_right_columns:
  assumes "unsuffixed n" "n \<noteq> key"
  shows "map_of (map (\<lambda>(m, c). (if m \<in> L then m @ ''_y'' else m, f c))
                     (filter (\<lambda>(m, c). m \<noteq> key) r)) n
           = (if n \<in> L then None else map_option f (map_of r n))"
  using assms
proof (induction r)
  case Nil
  then show ?case by simp
next
  case (Cons a r)
  obtain m c where a: "a = (m, c)" by (cases a)
  have "n \<noteq> m @ ''_y''" using Cons.prems by (simp add: unsuffixedD)
  then show ?case using Cons by (auto simp: a)
qed

lemma pd_merge_key_column:
  assumes "get_col l key = Inr kl" "get_col r key = Inr kr" "unsuffixed key"
  shows "\<exists>m. pd_merge l r key = Inr m
           \<and> get_col m key = Inr (map (\<lambda>(i, j). kl ! i) (merge_pairs kl kr))"
proof -
  have "map_of l key = Some kl"
    using assms(1) by (auto simp: get_col_def split: option.splits)
  then show ?thesis
    using assms
    by (simp add: pd_merge_def Let_def get_col_def map_of_left_columns [OF assms(3)])
qed

lemma pd_merge_right_column:
  assumes "pd_merge l r key = Inr m" "get_col r n = Inr c" "unsuffixed n" "n \<noteq> key"
    "n \<notin> set (columns l)"
  shows "\<exists>kl kr. get_col l key = Inr kl \<and> get_col r key = Inr kr
           \<and> get_col m n = Inr (map (\<lambda>(i, j). c ! j) (merge_pairs kl kr))"
proof -
  obtain kl kr where k: "get_col l key = Inr kl" "get_col r key = Inr kr"
    using assms(1) by (auto simp: pd_merge_def split: sum.splits)
  have c: "map_of r n = Some c"
    using assms(2) by (auto simp: get_col_def split: option.splits)
  have l: "map_of l n = None"
    using assms(5) by (simp add: columns_def map_of_eq_None_iff)
  define ps where "ps = merge_pairs kl kr"
  have m: "m = map (\<lambda>(n, c). (if n \<noteq> key \<and> n \<in> set (columns r) then n @ ''_x'' else n,
                                 map (\<lambda>(i, j). c ! i) ps)) l
             @ map (\<lambda>(n, c). (if n \<in> set (columns l) then n @ ''_y'' else n,
                                 map (\<lambda>(i, j). c ! j) ps))
                   (filter (\<lambda>(n, c). n \<noteq> key) r)"
    using assms(1) k by (simp add: pd_merge_def Let_def ps_def)
  have left: "map_of (map (\<lambda>(n, c). (if n \<noteq> key \<and> n \<in> set (columns r) then n @ ''_x'' else n,
                                 map (\<lambda>(i, j). c ! i) ps)) l) n = None"
    using l by (simp add: map_of_left_columns [OF assms(3)])
  have right: "map_of (map (\<lambda>(n, c). (if n \<in> set (columns l) then n @ ''_y'' else n,
                                 map (\<lambda>(i, j). c ! j) ps))
                   (filter (\<lambda>(n, c). n \<noteq> key) r)) n = Some (map (\<lambda>(i, j). c ! j) ps)"
    using c assms(5) by (simp add: map_of_right_columns [OF assms(3,4)])
  have "get_col m n = Inr (map (\<lambda>(i, j). c ! j) ps)"
    unfolding get_col_def m map_of_append
    by (simp add: map_add_def left right)
  then have "get_col m n = Inr (map (\<lambda>(i, j). c ! j) (merge_pairs kl kr))"
    by (simp only: ps_def)
  with k show ?thesis by blast
qed

text \<open>A result row that stems from the first right row can be told by its key, when
  that key occurs once on the right.\<close>

lemma merge_pairs_first_row:
  assumes "k < length (merge_pairs kl kr)" "kr \<noteq> []" "kr ! 0 \<notin> set (tl kr)"
    and "kl ! fst (merge_pairs kl kr ! k) = kr ! 0"
  shows "snd (merge_pairs kl kr ! k) = 0"
proof -
  obtain i j where p: "merge_pairs kl kr ! k = (i, j)" by (cases "merge_pairs kl kr ! k")
  then have "(i, j) \<in> set (merge_pairs kl kr)"
    using assms(1) by (metis nth_mem)
  then have j: "j < length kr" "kl ! i = kr ! j"
    by (auto simp: merge_pairs_def)
  have "kr ! j = kr ! 0" using j assms(4) p by simp
  have "j = 0"
  proof (rule ccontr)
    assume "j \<noteq> 0"
    then obtain j' where j': "j = Suc j'" by (cases j) auto
    then have "tl kr ! j' = kr ! j" "j' < length (tl kr)"
      using j(1) assms(2) by (simp_all add: nth_tl)
    then have "kr ! j \<in> set (tl kr)" by (metis nth_mem)
    with \<open>kr ! j = kr ! 0\<close> assms(3) show False by simp
  qed
  with p show ?thesis by simp
qed

lemma assign_diff_get_col:
  "assign_diff d new a b = Inr d' \<Longrightarrow> n \<noteq> new \<Longrightarrow> get_col d' n = get_col d n"
  by (auto simp: assign_diff_def get_col_set_col split: sum.splits)

lemma diff_loop_get_col:
  assumes "diff_loop cs col d cv = (e, d', cv')" "\<And>c. n \<noteq> c @ ''_'' @ col @ ''_Diff''"
  shows "get_col d' n = get_col d n"
  using assms
proof (induction cs col d cv rule: diff_loop.induct)
  case (1 col_name d cv)
  then show ?case by simp
next
  case (2 c_name rest col_name d cv)
  show ?case
  proof (cases "assign_diff d (c_name @ ''_'' @ col_name @ ''_Diff'') c_name col_name")
    case (Inl err)
    then show ?thesis using 2 by simp
  next
    case (Inr d1)
    then have "get_col d1 n = get_col d n"
      using 2(3) by (intro assign_diff_get_col) auto
    moreover have "get_col d' n = get_col d1 n"
      using 2 Inr by simp
    ultimately show ?thesis by simp
  qed
qed

lemma not_Diff_name:
  "last n \<noteq> CHR ''f'' \<Longrightarrow> n \<noteq> c @ ''_'' @ col @ ''_Diff''"
  by auto

section \<open>The change column of a moving average\<close>

lemma merge_pairs_member:
  "(i, j) \<in> set (merge_pairs kl kr) \<Longrightarrow> i < length kl \<and> j < length kr \<and> kl ! i = kr ! j"
  by (auto simp: merge_pairs_def)

text \<open>The date and the change column of the frame \<^verbatim>\<open>proc_add_mov_avg\<close> returns: the rows
  of the price dates and of the change column of the indicator frame that the join
  pairs.\<close>

lemma proc_add_mov_avg_change_column:
  assumes run: "proc_add_mov_avg fetch w stock mov_avg tp ''Date'' add_diff diff_col add_ohlc_diff
                  = (Inr r, w')"
    and loaded: "load_moving_avg fetch stock mov_avg tp = Inr [(''date'', kr), (upper mov_avg, vals)]"
    and kind: "upper mov_avg \<noteq> ''date''" "upper mov_avg \<noteq> ''Date''"
    and fresh: "upper mov_avg @ ''_'' @ str_int tp @ ''_CHANGE'' \<notin> set (columns (df w))"
    and dates: "get_col (df w) ''Date'' = Inr kl"
  shows "get_col r ''Date'' = Inr (map (\<lambda>(i, j). kl ! i) (merge_pairs kl kr))
       \<and> get_col r (upper mov_avg @ ''_'' @ str_int tp @ ''_CHANGE'')
           = Inr (map (\<lambda>(i, j). pct_change vals ! j) (merge_pairs kl kr))"
proof -
  define col_name where "col_name = upper mov_avg @ ''_'' @ str_int tp"
  define chg where "chg = col_name @ ''_CHANGE''"
  define ma where "ma = [(''Date'', kr), (col_name, vals), (chg, pct_change vals)]"
  have chg_alt: "upper mov_avg @ ''_'' @ str_int tp @ ''_CHANGE'' = chg"
    by (simp add: chg_def col_name_def)
  have "CHR ''_'' \<in> set col_name"
    by (simp add: col_name_def)
  then have "col_name \<noteq> ''Date''"
    by auto
  then have names: "col_name \<noteq> ''Date''" "chg \<noteq> ''Date''" "chg \<noteq> col_name"
    "last chg = CHR ''E''"
    by (auto simp: chg_def dest: arg_cong [where f = last])
  have col_upper: "col_name \<noteq> upper mov_avg"
    by (simp add: col_name_def)
  have renamed: "rename_column (rename_column [(''date'', kr), (upper mov_avg, vals)] ''date'' ''Date'')
                   (upper mov_avg) col_name = [(''Date'', kr), (col_name, vals)]"
    using kind by (simp add: rename_column_def)
  have ma_eq: "set_col [(''Date'', kr), (col_name, vals)] chg (pct_change vals) = ma"
    using names by (simp add: set_col_def columns_def ma_def)
  have ma_cols: "get_col ma ''Date'' = Inr kr" "get_col ma chg = Inr (pct_change vals)"
    using names by (simp_all add: ma_def get_col_def)
  have unsuf: "unsuffixed chg" "unsuffixed ''Date''"
    using names(4) by (simp_all add: unsuffixed_last)
  have not_diff: "chg \<noteq> c @ ''_'' @ col @ ''_Diff''" "''Date'' \<noteq> c @ ''_'' @ col @ ''_Diff''"
    for c col
    using names(4) by (auto dest: arg_cong [where f = last])
  have get_vals: "get_col [(''Date'', kr), (col_name, vals)] col_name = Inr vals"
    using names by (simp add: get_col_def)
  note run' = run [unfolded proc_add_mov_avg_def Let_def loaded sum.case
      col_name_def [symmetric] chg_def [symmetric] renamed get_vals ma_eq]
  obtain m where m: "pd_merge (df w) ma ''Date'' = Inr m"
    and keep: "get_col r ''Date'' = get_col m ''Date''" "get_col r chg = get_col m chg"
  proof (cases add_diff)
    case True
    then obtain m where "pd_merge (df w) ma ''Date'' = Inr m"
      and "assign_diff m (diff_col @ ''_'' @ col_name @ ''_Diff'') diff_col col_name = Inr r"
      using run' by (auto split: sum.splits)
    then show ?thesis
      using that [of m] not_diff by (simp add: assign_diff_get_col)
  next
    case False
    note no_diff = this
    show ?thesis
    proof (cases add_ohlc_diff)
      case True
      then obtain m cv cv' where "pd_merge (df w) ma ''Date'' = Inr m"
        and "diff_loop ohcl col_name m cv = (None, r, cv')"
        using run' no_diff by (auto split: sum.splits prod.splits option.splits)
      then show ?thesis
        using that [of m] not_diff diff_loop_get_col [of ohcl col_name m cv None r cv']
        by simp
    next
      case False
      then have "pd_merge (df w) ma ''Date'' = Inr r"
        using run' no_diff by simp
      then show ?thesis using that [of r] by simp
    qed
  qed
  obtain kl' kr' where k: "get_col (df w) ''Date'' = Inr kl'" "get_col ma ''Date'' = Inr kr'"
    and right: "get_col m chg = Inr (map (\<lambda>(i, j). pct_change vals ! j) (merge_pairs kl' kr'))"
    using pd_merge_right_column [OF m ma_cols(2) unsuf(1) names(2)] fresh [unfolded chg_alt]
    by blast
  have kr': "kr' = kr" using k(2) ma_cols(1) by simp
  have kl': "kl' = kl" using k(1) dates by simp
  obtain m' where "pd_merge (df w) ma ''Date'' = Inr m'"
      "get_col m' ''Date'' = Inr (map (\<lambda>(i, j). kl ! i) (merge_pairs kl kr))"
    using pd_merge_key_column [OF dates ma_cols(1) unsuf(2)] by blast
  then have left: "get_col m ''Date'' = Inr (map (\<lambda>(i, j). kl ! i) (merge_pairs kl kr))"
    using m by simp
  show ?thesis
    unfolding chg_alt using keep left right by (simp add: kr' kl')
qed

text \<open>
  Claim C3, as the code has it. The frame returned by \<^verbatim>\<open>proc_add_adx\<close>,
  \<^verbatim>\<open>proc_add_obv\<close>, \<^verbatim>\<open>proc_add_mom\<close> and \<^verbatim>\<open>proc_add_rsi\<close> with \<^verbatim>\<open>change=True\<close> has the
  change column, and unless the frame has no rows its first cell is NaN: filling the
  returned frame would change it, so the fill inside the call had no effect on it.
  \<^verbatim>\<open>proc_add_mov_avg\<close> takes the percentage change on the indicator frame, before the
  join. When the indicator frame has the shape of the interface contract and its first
  date occurs once, the NaN of its first row is in the returned frame where that date
  is: every row of the returned frame with that date has NaN in the change column, and
  filling the returned frame would change it. When the price table does not have that
  date, the join drops the row: if the percentage change is a number in every later row
  of the indicator frame, the change column of the returned frame holds no NaN.
\<close>

theorem discarded_fill_keeps_nan:
  "(\<forall>r w'. proc_add_adx fetch w stock True = (Inr r, w') \<longrightarrow>
      (\<exists>pc. get_col r ''ADX_CHANGE'' = Inr pc \<and> (pc \<noteq> [] \<longrightarrow> pc ! 0 = None \<and> fillna r \<noteq> r)))
   \<and> (\<forall>r w'. proc_add_obv fetch w stock True = (Inr r, w') \<longrightarrow>
      (\<exists>pc. get_col r ''OBV_CHANGE'' = Inr pc \<and> (pc \<noteq> [] \<longrightarrow> pc ! 0 = None \<and> fillna r \<noteq> r)))
   \<and> (\<forall>r w'. proc_add_mom fetch w stock True = (Inr r, w') \<longrightarrow>
      (\<exists>pc. get_col r ''MOM-pct'' = Inr pc \<and> (pc \<noteq> [] \<longrightarrow> pc ! 0 = None \<and> fillna r \<noteq> r)))
   \<and> (\<forall>r w'. proc_add_rsi fetch w stock True = (Inr r, w') \<longrightarrow>
      (\<exists>pc. get_col r ''RSI_CHANGE'' = Inr pc \<and> (pc \<noteq> [] \<longrightarrow> pc ! 0 = None \<and> fillna r \<noteq> r)))
   \<and> (\<forall>r w' kl kr vals.
        proc_add_mov_avg fetch w stock mov_avg tp ''Date'' add_diff diff_col add_ohlc_diff
          = (Inr r, w')
        \<and> get_col (df w) ''Date'' = Inr kl
        \<and> load_moving_avg fetch stock mov_avg tp = Inr [(''date'', kr), (upper mov_avg, vals)]
        \<and> upper mov_avg \<noteq> ''date'' \<and> upper mov_avg \<noteq> ''Date''
        \<and> upper mov_avg @ ''_'' @ str_int tp @ ''_CHANGE'' \<notin> set (columns (df w))
        \<and> kr \<noteq> [] \<and> kr ! 0 \<notin> set (tl kr) \<and> length vals = length kr \<longrightarrow>
      (\<exists>keys pc. get_col r ''Date'' = Inr keys
         \<and> get_col r (upper mov_avg @ ''_'' @ str_int tp @ ''_CHANGE'') = Inr pc
         \<and> length pc = length keys
         \<and> (\<forall>k < length keys. keys ! k = kr ! 0 \<longrightarrow> pc ! k = None \<and> fillna r \<noteq> r)
         \<and> (kr ! 0 \<notin> set kl \<and> list_all (\<lambda>x. x \<noteq> None) (tl (pct_change vals)) \<longrightarrow>
              list_all (\<lambda>x. x \<noteq> None) pc)))"
proof (intro conjI allI impI)
  fix r w' kl kr vals
  assume h: "proc_add_mov_avg fetch w stock mov_avg tp ''Date'' add_diff diff_col add_ohlc_diff
          = (Inr r, w')
        \<and> get_col (df w) ''Date'' = Inr kl
        \<and> load_moving_avg fetch stock mov_avg tp = Inr [(''date'', kr), (upper mov_avg, vals)]
        \<and> upper mov_avg \<noteq> ''date'' \<and> upper mov_avg \<noteq> ''Date''
        \<and> upper mov_avg @ ''_'' @ str_int tp @ ''_CHANGE'' \<notin> set (columns (df w))
        \<and> kr \<noteq> [] \<and> kr ! 0 \<notin> set (tl kr) \<and> length vals = length kr"
  define ps where "ps = merge_pairs kl kr"
  define keys where "keys = map (\<lambda>(i, j). kl ! i) ps"
  define pc where "pc = map (\<lambda>(i, j). pct_change vals ! j) ps"
  have cols: "get_col r ''Date'' = Inr keys"
      "get_col r (upper mov_avg @ ''_'' @ str_int tp @ ''_CHANGE'') = Inr pc"
    using h proc_add_mov_avg_change_column [of fetch w stock mov_avg tp add_diff diff_col
        add_ohlc_diff r w' kr vals kl]
    by (simp_all add: keys_def pc_def ps_def)
  have len: "length pc = length keys"
    by (simp add: keys_def pc_def)
  have once: "kr \<noteq> []" "kr ! 0 \<notin> set (tl kr)" and vals: "vals \<noteq> []"
    using h by auto
  have first: "pct_change vals ! 0 = None"
    using vals by (rule pct_change_first)
  have nan: "pc ! k = None \<and> fillna r \<noteq> r" if k: "k < length keys" "keys ! k = kr ! 0" for k
  proof -
    have kp: "k < length ps"
      using k(1) by (simp add: keys_def)
    have "kl ! fst (ps ! k) = kr ! 0"
      using k kp by (simp add: keys_def case_prod_beta)
    then have "snd (ps ! k) = 0"
      using kp once unfolding ps_def by (intro merge_pairs_first_row) simp_all
    then have "pc ! k = None"
      using kp first by (simp add: pc_def case_prod_beta)
    moreover have "fillna r \<noteq> r"
      using cols(2) _ \<open>pc ! k = None\<close> by (rule fillna_changes_nan) (use k(1) len in simp)
    ultimately show ?thesis by simp
  qed
  have full: "list_all (\<lambda>x. x \<noteq> None) pc"
    if absent: "kr ! 0 \<notin> set kl" and later: "list_all (\<lambda>x. x \<noteq> None) (tl (pct_change vals))"
  proof -
    have "pct_change vals ! j \<noteq> None" if p: "(i, j) \<in> set ps" for i j
    proof -
      have ij: "i < length kl" "j < length kr" "kl ! i = kr ! j"
        using p merge_pairs_member [of i j kl kr] by (simp_all add: ps_def)
      have "j \<noteq> 0"
        using ij(1,3) absent by (metis nth_mem)
      then obtain j' where j': "j = Suc j'"
        by (cases j) auto
      have "j' < length (tl (pct_change vals))"
        using ij(2) j' h by (simp add: length_pct_change)
      then have "tl (pct_change vals) ! j' \<noteq> None"
        using later by (simp add: list_all_length)
      moreover have "tl (pct_change vals) ! j' = pct_change vals ! j"
        using ij(2) j' h by (simp add: nth_tl length_pct_change)
      ultimately show ?thesis by simp
    qed
    then show ?thesis
      by (auto simp: pc_def list_all_iff)
  qed
  show "\<exists>keys pc. get_col r ''Date'' = Inr keys
         \<and> get_col r (upper mov_avg @ ''_'' @ str_int tp @ ''_CHANGE'') = Inr pc
         \<and> length pc = length keys
         \<and> (\<forall>k < length keys. keys ! k = kr ! 0 \<longrightarrow> pc ! k = None \<and> fillna r \<noteq> r)
         \<and> (kr ! 0 \<notin> set kl \<and> list_all (\<lambda>x. x \<noteq> None) (tl (pct_change vals)) \<longrightarrow>
              list_all (\<lambda>x. x \<noteq> None) pc)"
    using cols len nan full by blast
qed (rule proc_add_adx_change_nan proc_add_obv_change_nan proc_add_mom_change_nan
      proc_add_rsi_change_nan, assumption)+

lemma sample_change_runs:
  "proc_add_adx cache_up prices ''AMZN'' True
     = (Inr (merged_prices @ [(''ADX'', [Some 20, Some 30]), (''ADX_CHANGE'', [None, Some (1 / 2)])]),
        prices\<lparr>cont_vars := [''ADX'', ''ADX_CHANGE'']\<rparr>)"
  "proc_add_obv cache_up prices ''AMZN'' True
     = (Inr (merged_prices @ [(''OBV'', [Some 20, Some 30]), (''OBV_CHANGE'', [None, Some (1 / 2)])]),
        prices\<lparr>cont_vars := [''OBV'', ''OBV_CHANGE'']\<rparr>)"
  "proc_add_mom cache_up prices ''AMZN'' True
     = (Inr (merged_prices @ [(''MOM'', [Some 20, Some 30]), (''MOM-pct'', [None, Some (1 / 2)])]),
        prices\<lparr>cont_vars := [''MOM'', ''MOM-pct'']\<rparr>)"
  "proc_add_rsi cache_up prices ''AMZN'' True
     = (Inr (merged_prices @ [(''RSI'', [Some 20, Some 30]), (''RSI_CHANGE'', [None, Some (1 / 2)])]),
        prices\<lparr>cont_vars := [''RSI'', ''RSI_CHANGE'']\<rparr>)"
  "proc_add_mov_avg cache_up prices ''AMZN'' ''sma'' 20 ''Date'' False ''Close'' False
     = (Inr (merged_prices @ [(''SMA_20'', [Some 20, Some 30]),
                              (''SMA_20_CHANGE'', [None, Some (1 / 2)])]),
        prices\<lparr>cont_vars := [''SMA_20'', ''SMA_20_CHANGE'']\<rparr>)"
  by code_simp+

lemma sample_moving_average:
  "load_moving_avg cache_up ''AMZN'' ''sma'' 20
     = Inr [(''date'', [Some 2, Some 3, Some 4]), (upper ''sma'', [Some 20, Some 30, Some 40])]"
  "upper ''sma'' \<noteq> ''date''" "upper ''sma'' \<noteq> ''Date''"
  "upper ''sma'' @ ''_'' @ str_int 20 @ ''_CHANGE'' \<notin> set (columns (df prices))"
  "upper ''sma'' @ ''_'' @ str_int 20 @ ''_CHANGE'' = ''SMA_20_CHANGE''"
  "get_col (df prices) ''Date'' = Inr [Some 1, Some 2, Some 3]"
  by code_simp+

lemma early_moving_average:
  "load_moving_avg cache_early ''AMZN'' ''sma'' 20
     = Inr [(''date'', [Some 1, Some 2, Some 3]), (upper ''sma'', [Some 20, Some 30, Some 40])]"
  "upper ''sma'' @ ''_'' @ str_int 20 @ ''_CHANGE'' \<notin> set (columns (df late))"
  "get_col (df late) ''Date'' = Inr [Some 2, Some 3]"
  "pct_change [Some 20, Some 30, Some 40] = [None, Some (1 / 2), Some (1 / 3)]"
  by code_simp+

lemma early_run:
  "proc_add_mov_avg cache_early late ''AMZN'' ''sma'' 20 ''Date'' False ''Close'' False
     = (Inr [(''Date'', [Some 2, Some 3]), (''Close'', [Some 12, Some 13]),
             (''SMA_20'', [Some 30, Some 40]),
             (''SMA_20_CHANGE'', [Some (1 / 2), Some (1 / 3)])],
        late\<lparr>cont_vars := [''SMA_20'', ''SMA_20_CHANGE'']\<rparr>)"
  by code_simp

theorem discarded_fill_keeps_nan_witness:
  "(let r = merged_prices @ [(''ADX'', [Some 20, Some 30]), (''ADX_CHANGE'', [None, Some (1 / 2)])]
    in proc_add_adx cache_up prices ''AMZN'' True = (Inr r, prices\<lparr>cont_vars := [''ADX'', ''ADX_CHANGE'']\<rparr>)
       \<and> fillna r \<noteq> r)
   \<and> (let r = merged_prices @ [(''OBV'', [Some 20, Some 30]), (''OBV_CHANGE'', [None, Some (1 / 2)])]
    in proc_add_obv cache_up prices ''AMZN'' True = (Inr r, prices\<lparr>cont_vars := [''OBV'', ''OBV_CHANGE'']\<rparr>)
       \<and> fillna r \<noteq> r)
   \<and> (let r = merged_prices @ [(''MOM'', [Some 20, Some 30]), (''MOM-pct'', [None, Some (1 / 2)])]
    in proc_add_mom cache_up prices ''AMZN'' True = (Inr r, prices\<lparr>cont_vars := [''MOM'', ''MOM-pct'']\<rparr>)
       \<and> fillna r \<noteq> r)
   \<and> (let r = merged_prices @ [(''RSI'', [Some 20, Some 30]), (''RSI_CHANGE'', [None, Some (1 / 2)])]
    in proc_add_rsi cache_up prices ''AMZN'' True = (Inr r, prices\<lparr>cont_vars := [''RSI'', ''RSI_CHANGE'']\<rparr>)
       \<and> fillna r \<noteq> r)
   \<and> (let r = merged_prices @ [(''SMA_20'', [Some 20, Some 30]),
                               (''SMA_20_CHANGE'', [None, Some (1 / 2)])]
    in proc_add_mov_avg cache_up prices ''AMZN'' ''sma'' 20 ''Date'' False ''Close'' False
         = (Inr r, prices\<lparr>cont_vars := [''SMA_20'', ''SMA_20_CHANGE'']\<rparr>)
       \<and> fillna r \<noteq> r)
   \<and> (\<exists>r w' pc.
        proc_add_mov_avg cache_early late ''AMZN'' ''sma'' 20 ''Date'' False ''Close'' False
          = (Inr r, w')
        \<and> get_col r ''SMA_20_CHANGE'' = Inr pc \<and> pc \<noteq> [] \<and> list_all (\<lambda>x. x \<noteq> None) pc)"
proof -
  note inst = discarded_fill_keeps_nan [of cache_up prices "''AMZN''" "''sma''" 20 False
      "''Close''" False]
  note early = discarded_fill_keeps_nan [of cache_early late "''AMZN''" "''sma''" 20 False
      "''Close''" False]
  have cols: "get_col (merged_prices @ [(n, c), (n', c')]) n' = Inr c'"
    if "n' \<notin> {''Date'', ''Open'', ''High'', ''Low'', ''Close'', ''Volume'', n}" for n c n' c'
    using that by (simp add: get_col_def merged_prices_def)
  have dates: "get_col (merged_prices @ more) ''Date'' = Inr [Some 2, Some 3]" for more
    by (simp add: get_col_def merged_prices_def)
  have adx: "fillna r \<noteq> r"
    if "r = merged_prices @ [(''ADX'', [Some 20, Some 30]), (''ADX_CHANGE'', [None, Some (1 / 2)])]"
    for r
    using inst [THEN conjunct1, rule_format, OF sample_change_runs(1)] that
    by (simp add: cols)
  have obv: "fillna r \<noteq> r"
    if "r = merged_prices @ [(''OBV'', [Some 20, Some 30]), (''OBV_CHANGE'', [None, Some (1 / 2)])]"
    for r
    using inst [THEN conjunct2, THEN conjunct1, rule_format, OF sample_change_runs(2)] that
    by (simp add: cols)
  have mom: "fillna r \<noteq> r"
    if "r = merged_prices @ [(''MOM'', [Some 20, Some 30]), (''MOM-pct'', [None, Some (1 / 2)])]"
    for r
    using inst [THEN conjunct2, THEN conjunct2, THEN conjunct1, rule_format,
        OF sample_change_runs(3)] that
    by (simp add: cols)
  have rsi: "fillna r \<noteq> r"
    if "r = merged_prices @ [(''RSI'', [Some 20, Some 30]), (''RSI_CHANGE'', [None, Some (1 / 2)])]"
    for r
    using inst [THEN conjunct2, THEN conjunct2, THEN conjunct2, THEN conjunct1, rule_format,
        OF sample_change_runs(4)] that
    by (simp add: cols)
  have sma: "fillna r \<noteq> r"
    if r: "r = merged_prices @ [(''SMA_20'', [Some 20, Some 30]),
                              (''SMA_20_CHANGE'', [None, Some (1 / 2)])]"
    for r
  proof -
    have run: "proc_add_mov_avg cache_up prices ''AMZN'' ''sma'' 20 ''Date'' False ''Close'' False
         = (Inr r, prices\<lparr>cont_vars := [''SMA_20'', ''SMA_20_CHANGE'']\<rparr>)"
      unfolding r by (rule sample_change_runs(5))
    have rows: "[Some 2, Some 3, Some (4::real)] \<noteq> []"
      "[Some 2, Some 3, Some (4::real)] ! 0 \<notin> set (tl [Some 2, Some 3, Some 4])"
      "length [Some 20, Some 30, Some (40::real)] = length [Some 2, Some 3, Some (4::real)]"
      by simp_all
    have "\<exists>keys pc. get_col r ''Date'' = Inr keys
         \<and> get_col r (upper ''sma'' @ ''_'' @ str_int 20 @ ''_CHANGE'') = Inr pc
         \<and> length pc = length keys
         \<and> (\<forall>k < length keys. keys ! k = [Some 2, Some 3, Some (4::real)] ! 0
               \<longrightarrow> pc ! k = None \<and> fillna r \<noteq> r)
         \<and> ([Some 2, Some 3, Some (4::real)] ! 0 \<notin> set [Some 1, Some 2, Some 3]
              \<and> list_all (\<lambda>x. x \<noteq> None) (tl (pct_change [Some 20, Some 30, Some 40])) \<longrightarrow>
              list_all (\<lambda>x. x \<noteq> None) pc)"
      using run sample_moving_average(1-4,6) rows
      by (intro inst [THEN conjunct2, THEN conjunct2, THEN conjunct2, THEN conjunct2,
            rule_format, of r "prices\<lparr>cont_vars := [''SMA_20'', ''SMA_20_CHANGE'']\<rparr>"
            "[Some 1, Some 2, Some 3]" "[Some 2, Some 3, Some 4]" "[Some 20, Some 30, Some 40]"])
        blast
    then show ?thesis
      by (auto simp: r dates)
  qed
  have dropped: "\<exists>r w' pc.
        proc_add_mov_avg cache_early late ''AMZN'' ''sma'' 20 ''Date'' False ''Close'' False
          = (Inr r, w')
        \<and> get_col r ''SMA_20_CHANGE'' = Inr pc \<and> pc \<noteq> [] \<and> list_all (\<lambda>x. x \<noteq> None) pc"
  proof -
    define r where "r = [(''Date'', [Some 2, Some 3]), (''Close'', [Some 12, Some 13]),
             (''SMA_20'', [Some 30, Some 40]),
             (''SMA_20_CHANGE'', [Some (1 / 2), Some (1 / (3::real))])]"
    have run: "proc_add_mov_avg cache_early late ''AMZN'' ''sma'' 20 ''Date'' False ''Close'' False
         = (Inr r, late\<lparr>cont_vars := [''SMA_20'', ''SMA_20_CHANGE'']\<rparr>)"
      unfolding r_def by (rule early_run)
    have rows: "[Some 1, Some 2, Some (3::real)] \<noteq> []"
      "[Some 1, Some 2, Some (3::real)] ! 0 \<notin> set (tl [Some 1, Some 2, Some 3])"
      "length [Some 20, Some 30, Some (40::real)] = length [Some 1, Some 2, Some (3::real)]"
      by simp_all
    have "\<exists>keys pc. get_col r ''Date'' = Inr keys
         \<and> get_col r (upper ''sma'' @ ''_'' @ str_int 20 @ ''_CHANGE'') = Inr pc
         \<and> length pc = length keys
         \<and> (\<forall>k < length keys. keys ! k = [Some 1, Some 2, Some (3::real)] ! 0
               \<longrightarrow> pc ! k = None \<and> fillna r \<noteq> r)
         \<and> ([Some 1, Some 2, Some (3::real)] ! 0 \<notin> set [Some 2, Some 3]
              \<and> list_all (\<lambda>x. x \<noteq> None) (tl (pct_change [Some 20, Some 30, Some 40])) \<longrightarrow>
              list_all (\<lambda>x. x \<noteq> None) pc)"
      using run early_moving_average(1-3) sample_moving_average(2,3) rows
      by (intro early [THEN conjunct2, THEN conjunct2, THEN conjunct2, THEN conjunct2,
            rule_format, of r "late\<lparr>cont_vars := [''SMA_20'', ''SMA_20_CHANGE'']\<rparr>"
            "[Some 2, Some 3]" "[Some 1, Some 2, Some 3]" "[Some 20, Some 30, Some 40]"])
        blast
    then obtain pc where pc: "get_col r (upper ''sma'' @ ''_'' @ str_int 20 @ ''_CHANGE'') = Inr pc"
      and full: "[Some 1, Some 2, Some (3::real)] ! 0 \<notin> set [Some 2, Some 3]
              \<and> list_all (\<lambda>x. x \<noteq> None) (tl (pct_change [Some 20, Some 30, Some 40])) \<longrightarrow>
              list_all (\<lambda>x. x \<noteq> None) pc"
      by (elim exE conjE) (rule that)
    have "[Some 1, Some 2, Some (3::real)] ! 0 \<notin> set [Some 2, Some 3]
              \<and> list_all (\<lambda>x. x \<noteq> None) (tl (pct_change [Some 20, Some 30, Some 40]))"
      by (simp add: early_moving_average(4) del: not_None_eq)
    with full have "list_all (\<lambda>x. x \<noteq> None) pc"
      by (rule mp)
    moreover have "get_col r ''SMA_20_CHANGE'' = Inr pc"
      using pc by (simp only: sample_moving_average(5))
    moreover have "pc \<noteq> []"
      using \<open>get_col r ''SMA_20_CHANGE'' = Inr pc\<close> by (auto simp: r_def get_col_def)
    ultimately show ?thesis
      using run by blast
  qed
  show ?thesis
    using sample_change_runs adx obv mom rsi sma dropped by (simp add: Let_def)
qed

text \<open>
  Claim C3, as stated, fails for \<^verbatim>\<open>proc_add_mov_avg\<close>. The indicator frame of
  \<open>cache_early\<close> starts at date 1, the price table \<open>late\<close> at date 2. The NaN that
  \<^verbatim>\<open>pct_change\<close> leaves in the first row of the indicator frame is in the row the join
  drops, and the returned frame holds no NaN: filling it changes nothing.
\<close>

theorem moving_average_change_without_nan:
  "load_moving_avg cache_early ''AMZN'' ''sma'' 20
     = Inr [(''date'', [Some 1, Some 2, Some 3]), (''SMA'', [Some 20, Some 30, Some 40])]
   \<and> get_col (df late) ''Date'' = Inr [Some 2, Some 3]
   \<and> (let r = [(''Date'', [Some 2, Some 3]), (''Close'', [Some 12, Some 13]),
               (''SMA_20'', [Some 30, Some 40]),
               (''SMA_20_CHANGE'', [Some (1 / 2), Some (1 / 3)])]
      in proc_add_mov_avg cache_early late ''AMZN'' ''sma'' 20 ''Date'' False ''Close'' False
           = (Inr r, late\<lparr>cont_vars := [''SMA_20'', ''SMA_20_CHANGE'']\<rparr>)
         \<and> get_col r ''SMA_20_CHANGE'' = Inr [Some (1 / 2), Some (1 / 3)]
         \<and> fillna r = r)"
  by code_simp

section \<open>The merge is an inner join\<close>























end
